theory Spec2Isabelle
  imports Complex_Main
begin

section \<open>SatelliteTracker client: prediction coverage cache and refresh loop\<close>

text \<open>
  A shallow embedding of \<^verbatim>\<open>satellite_tracker_client/entities.py\<close> and
  \<^verbatim>\<open>satellite_tracker_client/map_ui.py\<close>.

  Conventions of the embedding.
  \<^item> Every date (a Python \<^verbatim>\<open>datetime\<close>, its ISO string, a Cesium \<^verbatim>\<open>JulianDate\<close>) is a
    rational number of seconds on one time line, counted from 1970-01-01T00:00:00; the
    conversions between the three representations (\<^verbatim>\<open>isoformat\<close>,
    \<^verbatim>\<open>iso_to_cesium_date\<close>, \<^verbatim>\<open>cesium_date_to_datetime\<close>) keep the number. A Python
    \<^verbatim>\<open>datetime\<close> lies between the years 1 and 9999, and a \<^verbatim>\<open>timedelta\<close> is a whole
    number of microseconds of at most 999999999 days: the arithmetic of the two raises
    \<^verbatim>\<open>OverflowError\<close> outside these ranges. Numbers of the browser and of Python are exact
    rationals otherwise: the rounding of floating-point products is not modelled.
  \<^item> Python's \<^verbatim>\<open>None\<close> is \<open>None\<close> of an option type.
  \<^item> An object mutated in place is passed in and returned updated.
  \<^item> A raised exception is a value of type \<open>exn\<close>.
\<close>

type_synonym datetime = rat

datatype exn =
    AssertionError
  | TypeError
  | AttributeError
  | OverflowError
  | ValueError
  | RuntimeError
  | DecodeError
  | RequestError

subsection \<open>The datetime module\<close>

text \<open>
  The dates a \<^verbatim>\<open>datetime\<close> can hold: from \<^verbatim>\<open>datetime.min\<close>, 0001-01-01T00:00:00, to
  \<^verbatim>\<open>datetime.max\<close>, 9999-12-31T23:59:59.999999, that is the seconds from 719162 days
  before 1970 to the last microsecond before the year 10000.
\<close>

definition valid_datetime :: "datetime \<Rightarrow> bool" where
  "valid_datetime t = (- 62135596800 \<le> t \<and> t < 253402300800)"

text \<open>Python's \<^verbatim>\<open>round\<close>: to the nearest integer, a tie to the even one.\<close>

definition round_half_even :: "rat \<Rightarrow> int" where
  "round_half_even x =
     (let f = \<lfloor>x\<rfloor>; r = x - of_int f
      in if r < 1 / 2 then f
         else if 1 / 2 < r then f + 1
         else if even f then f else f + 1)"

text \<open>
  \<^verbatim>\<open>timedelta(seconds=x)\<close>: the span of \<open>x\<close> seconds rounded to the microsecond, in
  seconds. The constructor raises \<^verbatim>\<open>OverflowError\<close> when the span, normalised to days,
  seconds and microseconds, has more than 999999999 days in absolute value.
\<close>

definition timedelta :: "rat \<Rightarrow> exn + rat" where
  "timedelta seconds =
     (let microseconds = round_half_even (seconds * 1000000);
          days = microseconds div 86400000000
      in if - 999999999 \<le> days \<and> days \<le> 999999999
         then Inr (of_int microseconds / 1000000)
         else Inl OverflowError)"

text \<open>
  \<^verbatim>\<open>datetime + timedelta\<close> and \<^verbatim>\<open>datetime - timedelta\<close>: \<^verbatim>\<open>OverflowError\<close> when the
  result is not a date a \<^verbatim>\<open>datetime\<close> can hold.
\<close>

definition datetime_add :: "datetime \<Rightarrow> rat \<Rightarrow> exn + datetime" where
  "datetime_add t delta =
     (if valid_datetime (t + delta) then Inr (t + delta) else Inl OverflowError)"

definition datetime_sub :: "datetime \<Rightarrow> rat \<Rightarrow> exn + datetime" where
  "datetime_sub t delta =
     (if valid_datetime (t - delta) then Inr (t - delta) else Inl OverflowError)"

text \<open>
  Modelled from the spec: \<^verbatim>\<open>cesium_date_to_datetime\<close> of \<^verbatim>\<open>utils.py\<close> is not among the
  sources. It gives the current map instant, the date of the Cesium clock, as a
  \<^verbatim>\<open>datetime\<close>. A \<^verbatim>\<open>datetime\<close> it returns is a date a \<^verbatim>\<open>datetime\<close> can hold; for any
  other date of the clock no \<^verbatim>\<open>datetime\<close> exists, and the conversion is taken to raise
  \<^verbatim>\<open>ValueError\<close>, as the constructor of \<^verbatim>\<open>datetime\<close> does.
\<close>

definition cesium_date_to_datetime :: "datetime \<Rightarrow> exn + datetime" where
  "cesium_date_to_datetime t = (if valid_datetime t then Inr t else Inl ValueError)"

subsection \<open>entities.py: value objects\<close>

record PathPosition =
  at_date :: string
  latitude :: rat
  longitude :: rat
  altitude :: rat
  cesium_date :: datetime
  cesium_position :: "rat \<times> rat \<times> rat"

record Style =
  point_size :: rat
  point_color :: string
  show_path :: bool
  path_width :: rat
  path_color :: string
  path_seconds_ahead :: rat
  path_seconds_behind :: rat
  show_sensor :: bool
  sensor_line_width :: rat
  sensor_color :: string
  sensor_fill :: bool
  sensor_fill_alpha :: rat

text \<open>\<^verbatim>\<open>Style()\<close> with every default argument.\<close>

definition Style_init :: Style where
  "Style_init =
     \<lparr> point_size = 10, point_color = ''#FFFF00'',
       show_path = True, path_width = 2, path_color = ''#00FF00'',
       path_seconds_ahead = 60 * 45, path_seconds_behind = 60 * 10,
       show_sensor = True, sensor_line_width = 1, sensor_color = ''#00FFFF'',
       sensor_fill = False, sensor_fill_alpha = 2 / 10 \<rparr>"

record Satellite =
  sat_id :: string
  from_db :: bool
  name :: string
  description :: string
  norad_id :: "int option"
  tle :: "string option"
  tle_date :: "datetime option"
  style :: Style
  path_positions :: "PathPosition list option"
  path_start_date :: "datetime option"
  path_end_date :: "datetime option"

text \<open>
  The objects the assertion of \<^verbatim>\<open>Satellite.__init__\<close> can look at: the name \<^verbatim>\<open>id\<close> in
  \<^verbatim>\<open>assert id is not None\<close> is not the parameter \<^verbatim>\<open>id_\<close> but the builtin function.
\<close>

datatype pyobject = PyNone | PyBuiltinFunction string

definition builtin_id :: pyobject where
  "builtin_id = PyBuiltinFunction ''id''"

text \<open>
  \<^verbatim>\<open>Satellite.__init__\<close>. The first argument is the string \<^verbatim>\<open>str(uuid4())\<close> would give if
  it were called. \<^verbatim>\<open>style=None\<close> gives the default style.
\<close>

definition Satellite_init ::
  "string \<Rightarrow> string option \<Rightarrow> bool \<Rightarrow> string \<Rightarrow> string \<Rightarrow> int option \<Rightarrow> string option
     \<Rightarrow> datetime option \<Rightarrow> Style option \<Rightarrow> exn + Satellite" where
  "Satellite_init uuid4 id' from_db' name' description' norad_id' tle' tle_date' style' =
     (if from_db' \<and> \<not> (builtin_id \<noteq> PyNone) then Inl AssertionError
      else
        let id'' = (case id' of None \<Rightarrow> uuid4 | Some i \<Rightarrow> i);
            style'' = (case style' of None \<Rightarrow> Style_init | Some s \<Rightarrow> s)
        in Inr \<lparr> sat_id = id'', from_db = from_db', name = name',
                 description = description', norad_id = norad_id', tle = tle',
                 tle_date = tle_date', style = style'',
                 path_positions = None, path_start_date = None, path_end_date = None \<rparr>)"

text \<open>Truth value of a list-or-None and of a string-or-None in an \<^verbatim>\<open>if\<close>.\<close>

fun truthy :: "'a list option \<Rightarrow> bool" where
  "truthy None = False"
| "truthy (Some []) = False"
| "truthy (Some (x # xs)) = True"

text \<open>
  \<^verbatim>\<open>a <= b\<close> and \<^verbatim>\<open>a >= b\<close> where the left operand may be \<^verbatim>\<open>None\<close>: Python raises
  \<^verbatim>\<open>TypeError\<close> there.
\<close>

definition py_le :: "datetime option \<Rightarrow> datetime \<Rightarrow> exn + bool" where
  "py_le a b = (case a of None \<Rightarrow> Inl TypeError | Some x \<Rightarrow> Inr (x \<le> b))"

definition py_ge :: "datetime option \<Rightarrow> datetime \<Rightarrow> exn + bool" where
  "py_ge a b = (case a of None \<Rightarrow> Inl TypeError | Some x \<Rightarrow> Inr (x \<ge> b))"

text \<open>\<^verbatim>\<open>Satellite.path_covers\<close>; \<^verbatim>\<open>and\<close> evaluates its right operand only after a true left one.\<close>

definition path_covers :: "Satellite \<Rightarrow> datetime \<Rightarrow> datetime \<Rightarrow> exn + bool" where
  "path_covers self start_date end_date =
     (if truthy (path_positions self) then
        (case py_le (path_start_date self) start_date of
           Inl e \<Rightarrow> Inl e
         | Inr False \<Rightarrow> Inr False
         | Inr True \<Rightarrow> py_ge (path_end_date self) end_date)
      else Inr False)"

subsection \<open>entities.py: requesting and receiving path predictions\<close>

text \<open>
  The arguments of the call \<^verbatim>\<open>aio.get("/api/predict_path/", timeout=..., data=...)\<close>.
\<close>

record Request =
  rq_satellite_id :: string
  rq_tle :: "string option"
  rq_start_date :: datetime
  rq_end_date :: datetime
  rq_timeout :: rat

text \<open>
  What the decoders outside this repository's code (\<^verbatim>\<open>JSON.parse\<close>,
  \<^verbatim>\<open>parse_iso8601_date\<close>, \<^verbatim>\<open>iso_to_cesium_date\<close>, \<^verbatim>\<open>Cartesian3.fromDegrees\<close>) make of a
  response body. \<open>pd_start_date\<close> is the value of
  \<^verbatim>\<open>parse_iso8601_date(path_data["start_date"])\<close>, \<open>pd_end_date\<close> the same for
  \<^verbatim>\<open>"end_date"\<close>, \<open>pd_positions\<close> the value of the list comprehension over
  \<^verbatim>\<open>path_data.positions\<close>; \<open>None\<close> stands for an expression that raises. In a
  response, \<open>data = None\<close> stands for a body on which \<^verbatim>\<open>JSON.parse\<close> raises.
\<close>

record PathData =
  pd_start_date :: "datetime option"
  pd_end_date :: "datetime option"
  pd_positions :: "PathPosition list option"

record Response =
  status :: int
  data :: "PathData option"

text \<open>The await of \<^verbatim>\<open>aio.get\<close> either raises or gives the finished request object.\<close>

datatype outcome = Raises exn | Returns Response

text \<open>
  What the code prints and the calls it makes to the network. \<open>Resolved\<close> marks the
  moment at which the awaited request has come back (the code prints nothing there).
\<close>

datatype event =
    PrintNoTLE string
  | PrintRequesting string
  | Requested Request
  | Resolved Request outcome
  | PrintPathReceived string
  | PrintErrorGettingPath string "PathData option"
  | PrintErrorCheckingOrGetting string exn
  | PrintChecking
  | PrintNoDashboard

text \<open>
  \<^verbatim>\<open>Satellite.on_path_received\<close>. \<open>w\<close> is the state the callback works on; the callback
  is given the satellite as it is after the three assignments. The result is the
  satellite, the callback's state, what was printed and the exception raised, if any:
  assignments made before an exception stay.
\<close>

definition on_path_received ::
  "Satellite \<Rightarrow> Response \<Rightarrow> (Satellite \<Rightarrow> 'w \<Rightarrow> 'w \<times> exn option) option \<Rightarrow> 'w
     \<Rightarrow> Satellite \<times> 'w \<times> event list \<times> exn option" where
  "on_path_received self request callback w =
     (if status request = 0 \<or> status request = 200 then
        (case data request of
           None \<Rightarrow> (self, w, [PrintPathReceived (name self)], Some DecodeError)
         | Some path_data \<Rightarrow>
             (case pd_start_date path_data of
                None \<Rightarrow> (self, w, [PrintPathReceived (name self)], Some DecodeError)
              | Some s \<Rightarrow>
                  let self1 = self\<lparr>path_start_date := Some s\<rparr> in
                  (case pd_end_date path_data of
                     None \<Rightarrow> (self1, w, [PrintPathReceived (name self)], Some DecodeError)
                   | Some e \<Rightarrow>
                       let self2 = self1\<lparr>path_end_date := Some e\<rparr> in
                       (case pd_positions path_data of
                          None \<Rightarrow> (self2, w, [PrintPathReceived (name self)], Some DecodeError)
                        | Some ps \<Rightarrow>
                            let self3 = self2\<lparr>path_positions := Some ps\<rparr> in
                            (case callback of
                               None \<Rightarrow> (self3, w, [PrintPathReceived (name self)], None)
                             | Some cb \<Rightarrow>
                                 (case cb self3 w of
                                    (w', x) \<Rightarrow>
                                      (self3, w', [PrintPathReceived (name self)], x)))))))
      else
        (self, w,
         [PrintPathReceived (name self), PrintErrorGettingPath (name self) (data request)],
         None))"

text \<open>
  \<^verbatim>\<open>Satellite.get_path\<close> up to its await: either it returns at once (no TLE), or it
  suspends in \<^verbatim>\<open>aio.get\<close> with the request it has built.
\<close>

definition get_path_begin ::
  "Satellite \<Rightarrow> datetime \<Rightarrow> datetime \<Rightarrow> rat \<Rightarrow> event list \<times> Request option" where
  "get_path_begin self start_date end_date timeout =
     (if \<not> truthy (tle self) then ([PrintNoTLE (name self)], None)
      else
        let request = \<lparr> rq_satellite_id = sat_id self, rq_tle = tle self,
                          rq_start_date = start_date, rq_end_date = end_date,
                          rq_timeout = timeout \<rparr>
        in ([PrintRequesting (name self), Requested request], Some request))"

text \<open>
  \<^verbatim>\<open>Satellite.get_path\<close> from the await on: the request has come back with \<open>outcome\<close>.
\<close>

definition get_path_resume ::
  "Satellite \<Rightarrow> Request \<Rightarrow> outcome \<Rightarrow> (Satellite \<Rightarrow> 'w \<Rightarrow> 'w \<times> exn option) option \<Rightarrow> 'w
     \<Rightarrow> Satellite \<times> 'w \<times> event list \<times> exn option" where
  "get_path_resume self request outcome callback w =
     (case outcome of
        Raises err \<Rightarrow> (self, w, [Resolved request outcome], Some err)
      | Returns r \<Rightarrow>
          (case on_path_received self r callback w of
             (self', w', evs, x) \<Rightarrow> (self', w', Resolved request outcome # evs, x)))"

text \<open>
  \<^verbatim>\<open>Satellite.get_path\<close> as a whole, the network being the function \<open>aio_get\<close> from the
  request to what its await gives.
\<close>

definition get_path ::
  "(Request \<Rightarrow> outcome) \<Rightarrow> Satellite \<Rightarrow> datetime \<Rightarrow> datetime \<Rightarrow> rat
     \<Rightarrow> (Satellite \<Rightarrow> 'w \<Rightarrow> 'w \<times> exn option) option \<Rightarrow> 'w
     \<Rightarrow> Satellite \<times> 'w \<times> event list \<times> exn option" where
  "get_path aio_get self start_date end_date timeout callback w =
     (case get_path_begin self start_date end_date timeout of
        (evs, None) \<Rightarrow> (self, w, evs, None)
      | (evs, Some request) \<Rightarrow>
          (case get_path_resume self request (aio_get request) callback w of
             (self', w', evs', x) \<Rightarrow> (self', w', evs @ evs', x)))"

subsection \<open>entities.py: the dashboard\<close>

text \<open>
  \<^verbatim>\<open>Dashboard.__init__\<close> stores a list when it is given no satellites, and
  \<^verbatim>\<open>Dashboard.from_jsobj\<close> a dict from the satellite's id to the satellite (a dict keeps
  the order of insertion). Locations take no part in the refresh loop and are left out.
\<close>

datatype satellites_container =
    SatellitesList "Satellite list"
  | SatellitesDict "(string \<times> Satellite) list"

record Dashboard =
  dashboard_id :: string
  dashboard_name :: string
  satellites :: satellites_container

definition Dashboard_init ::
  "string \<Rightarrow> string option \<Rightarrow> string \<Rightarrow> satellites_container option \<Rightarrow> Dashboard" where
  "Dashboard_init uuid4 id' name' satellites' =
     \<lparr> dashboard_id = (case id' of None \<Rightarrow> uuid4 | Some i \<Rightarrow> i),
       dashboard_name = name',
       satellites = (case satellites' of None \<Rightarrow> SatellitesList [] | Some c \<Rightarrow> c) \<rparr>"

subsection \<open>map\_ui.py: the viewer\<close>

text \<open>
  The part of the Cesium viewer the code reads and writes. A colour is its hex string
  (\<^verbatim>\<open>hex_to_cesium_color\<close> changes the representation only); a sampled property is the
  list of its samples in the order \<^verbatim>\<open>addSample\<close> was called; an interval collection is
  the list of its intervals. \<open>shouldAnimate\<close> is the flag \<^verbatim>\<open>configure_cesium_map\<close> sets
  to \<^verbatim>\<open>True\<close>: a clock that does not animate stands still.
\<close>

record Clock =
  currentTime :: datetime
  clockStep :: rat
  multiplier :: rat
  shouldAnimate :: bool

record PointGraphics =
  point_show :: bool
  pixelSize :: rat
  color :: string

record EllipseGraphics =
  outline :: bool
  outlineColor :: string
  outlineWidth :: rat
  fill :: bool
  material :: "(string \<times> rat) option"
  semiMinorAxis :: "(datetime \<times> rat) list option"
  semiMajorAxis :: "(datetime \<times> rat) list option"

record PathGraphics =
  path_show :: bool
  width :: rat
  path_material :: string
  resolution :: rat
  leadTime :: rat
  trailTime :: rat

record Entity =
  entity_id :: string
  entity_name :: "string option"
  entity_description :: "string option"
  availability :: "(datetime \<times> datetime) list"
  point :: "PointGraphics option"
  ellipse :: "EllipseGraphics option"
  position :: "(datetime \<times> rat \<times> rat \<times> rat) list option"
  path :: "PathGraphics option"
  entity_show :: bool

record Viewer =
  clock :: Clock
  entities :: "string \<rightharpoonup> Entity"

record MapUI =
  app_dashboard :: "Dashboard option"
  viewer :: Viewer
  predictions_refresh_real_seconds :: rat
  predictions_chunk_real_seconds :: rat
  predictions_too_low_threshold_real_seconds :: rat
  paths_visible :: bool
  sensors_visible :: bool

text \<open>
  \<^verbatim>\<open>MapUI.__init__\<close>, given the dashboard of the app and the clock of the new Cesium
  viewer. The handlers of the page's inputs are left out.
\<close>

definition MapUI_init :: "Dashboard option \<Rightarrow> Clock \<Rightarrow> MapUI" where
  "MapUI_init dashboard clock0 =
     \<lparr> app_dashboard = dashboard,
       viewer = \<lparr> clock = clock0\<lparr>shouldAnimate := True\<rparr>, entities = Map.empty \<rparr>,
       predictions_refresh_real_seconds = 5,
       predictions_chunk_real_seconds = 30 * 60,
       predictions_too_low_threshold_real_seconds = 15 * 60,
       paths_visible = True,
       sensors_visible = True \<rparr>"

text \<open>\<^verbatim>\<open>MapUI.real_to_map_seconds\<close>.\<close>

definition real_to_map_seconds :: "MapUI \<Rightarrow> rat \<Rightarrow> rat" where
  "real_to_map_seconds self real_seconds =
     (let clock' = clock (viewer self)
      in clockStep clock' * multiplier clock' * real_seconds)"

text \<open>\<^verbatim>\<open>MapUI.clear_map_data\<close> and \<^verbatim>\<open>MapUI.on_dashboard_changed\<close> (locations left out).\<close>

definition clear_map_data :: "MapUI \<Rightarrow> MapUI" where
  "clear_map_data self = self\<lparr>viewer := (viewer self)\<lparr>entities := Map.empty\<rparr>\<rparr>"

definition on_dashboard_changed :: "MapUI \<Rightarrow> MapUI" where
  "on_dashboard_changed self = clear_map_data self"

text \<open>
  \<^verbatim>\<open>App.set_current_dashboard\<close> with a dashboard (not an id): it is stored and the one
  registered callback, \<^verbatim>\<open>MapUI.on_dashboard_changed\<close>, runs.
\<close>

definition set_current_dashboard :: "Dashboard \<Rightarrow> MapUI \<Rightarrow> MapUI" where
  "set_current_dashboard dashboard self =
     on_dashboard_changed (self\<lparr>app_dashboard := Some dashboard\<rparr>)"

text \<open>
  The entity \<^verbatim>\<open>viewer.entities.add({"id": ..., "availability": ...})\<close> creates.
\<close>

definition new_entity :: "string \<Rightarrow> Entity" where
  "new_entity i =
     \<lparr> entity_id = i, entity_name = None, entity_description = None, availability = [],
       point = None, ellipse = None, position = None, path = None, entity_show = True \<rparr>"

text \<open>
  An assignment to attributes of an entity object the viewer holds: the entity under the
  id \<open>i\<close> becomes \<open>f\<close> of itself.
\<close>

definition update_entity :: "string \<Rightarrow> (Entity \<Rightarrow> Entity) \<Rightarrow> MapUI \<Rightarrow> MapUI" where
  "update_entity i f self =
     (case entities (viewer self) i of
        None \<Rightarrow> self
      | Some e \<Rightarrow> self\<lparr>viewer := (viewer self)\<lparr>entities := (entities (viewer self))(i \<mapsto> f e)\<rparr>\<rparr>)"

text \<open>
  \<^verbatim>\<open>MapUI.get_or_create_satellite_entity\<close> and
  \<^verbatim>\<open>MapUI.get_or_create_satellite_sensor_entity\<close>; the entity is returned as its id.
\<close>

definition get_or_create_satellite_entity :: "MapUI \<Rightarrow> Satellite \<Rightarrow> string \<times> MapUI" where
  "get_or_create_satellite_entity self satellite =
     (let satellite_map_id = ''SatelliteTracker.Satellite:'' @ sat_id satellite
      in case entities (viewer self) satellite_map_id of
           Some e \<Rightarrow> (satellite_map_id, self)
         | None \<Rightarrow>
             (satellite_map_id,
              self\<lparr>viewer := (viewer self)\<lparr>entities :=
                (entities (viewer self))(satellite_map_id \<mapsto> new_entity satellite_map_id)\<rparr>\<rparr>))"

definition get_or_create_satellite_sensor_entity :: "MapUI \<Rightarrow> Satellite \<Rightarrow> string \<times> MapUI" where
  "get_or_create_satellite_sensor_entity self satellite =
     (let sensor_map_id = ''SatelliteTracker.SatelliteSensor:'' @ sat_id satellite
      in case entities (viewer self) sensor_map_id of
           Some e \<Rightarrow> (sensor_map_id, self)
         | None \<Rightarrow>
             (sensor_map_id,
              self\<lparr>viewer := (viewer self)\<lparr>entities :=
                (entities (viewer self))(sensor_map_id \<mapsto> new_entity sensor_map_id)\<rparr>\<rparr>))"

definition html_description :: "string \<Rightarrow> string" where
  "html_description d = ''<!--HTML-->'' @ [CHR 0x0D, CHR 0x0A] @ ''<p>'' @ d @ ''</p>''"

text \<open>
  \<^verbatim>\<open>MapUI.update_satellite_in_map\<close>. \<open>calculate_visible_radius\<close> is the helper of
  \<^verbatim>\<open>utils.py\<close>, a parameter here. \<^verbatim>\<open>None.isoformat()\<close> raises \<^verbatim>\<open>AttributeError\<close> and a
  loop over \<^verbatim>\<open>None\<close> raises \<^verbatim>\<open>TypeError\<close>; what was written to the viewer before stays.
\<close>

definition update_satellite_in_map ::
  "(rat \<Rightarrow> rat) \<Rightarrow> Satellite \<Rightarrow> MapUI \<Rightarrow> MapUI \<times> exn option" where
  "update_satellite_in_map calculate_visible_radius satellite self0 =
     (let (satellite_entity, self1) = get_or_create_satellite_entity self0 satellite;
          (sensor_entity, self2) = get_or_create_satellite_sensor_entity self1 satellite;
          self3 = update_entity satellite_entity
                    (\<lambda>e. e\<lparr>entity_name := Some (name satellite),
                            entity_description :=
                              Some (html_description (description satellite))\<rparr>) self2
      in case path_start_date satellite of
           None \<Rightarrow> (self3, Some AttributeError)
         | Some start \<Rightarrow>
        (case path_end_date satellite of
           None \<Rightarrow> (self3, Some AttributeError)
         | Some stop \<Rightarrow>
        (let availability_interval = (start, stop);
             self4 = update_entity satellite_entity
                       (\<lambda>e. e\<lparr>availability := [availability_interval]\<rparr>) self3;
             self5 = update_entity sensor_entity
                       (\<lambda>e. e\<lparr>availability := [availability_interval]\<rparr>) self4;
             self6 = update_entity satellite_entity
                       (\<lambda>e. e\<lparr>point := Some
                          \<lparr> point_show = True,
                            pixelSize = point_size (style satellite),
                            color = point_color (style satellite) \<rparr>\<rparr>) self5;
             sensor_ellipse_config =
               \<lparr> outline = True,
                 outlineColor = sensor_color (style satellite),
                 outlineWidth = sensor_line_width (style satellite),
                 fill = sensor_fill (style satellite),
                 material =
                   (if sensor_fill (style satellite)
                    then Some (sensor_color (style satellite),
                               sensor_fill_alpha (style satellite))
                    else None),
                 semiMinorAxis = None, semiMajorAxis = None \<rparr>;
             self7 = update_entity sensor_entity
                       (\<lambda>e. e\<lparr>ellipse := Some sensor_ellipse_config\<rparr>) self6
         in case path_positions satellite of
              None \<Rightarrow> (self7, Some TypeError)
            | Some positions \<Rightarrow>
           (let position_property =
                  map (\<lambda>p. (cesium_date p, cesium_position p)) positions;
                sensor_radius_property =
                  map (\<lambda>p. (cesium_date p, calculate_visible_radius (altitude p))) positions;
                self8 = update_entity satellite_entity
                          (\<lambda>e. e\<lparr>position := Some position_property\<rparr>) self7;
                self9 = update_entity sensor_entity
                          (\<lambda>e. e\<lparr>position := Some position_property,
                                  ellipse := map_option
                                    (\<lambda>g. g\<lparr>semiMinorAxis := Some sensor_radius_property,
                                            semiMajorAxis := Some sensor_radius_property\<rparr>)
                                    (ellipse e),
                                  entity_show := sensors_visible self0\<rparr>) self8;
                self10 = update_entity satellite_entity
                           (\<lambda>e. e\<lparr>path := Some
                              \<lparr> path_show = paths_visible self0,
                                width = path_width (style satellite),
                                path_material = path_color (style satellite),
                                resolution = 120,
                                leadTime = path_seconds_ahead (style satellite),
                                trailTime = path_seconds_behind (style satellite) \<rparr>\<rparr>) self9
            in (self10, None)))))"

subsection \<open>map\_ui.py: the refresh loop\<close>

text \<open>
  The dates one pass of \<^verbatim>\<open>ensure_enough_predictions\<close> computes before it looks at the
  satellites (lines 157 to 171), in the order of the source. The statements stand before
  the \<^verbatim>\<open>try\<close> of the loop: an exception one of them raises leaves the coroutine.
\<close>

record Locals =
  map_now :: datetime
  ensure_predictions_until :: datetime
  start_date :: datetime
  end_date :: datetime

definition compute_locals :: "MapUI \<Rightarrow> exn + Locals" where
  "compute_locals self =
     (case cesium_date_to_datetime (currentTime (clock (viewer self))) of
        Inl err \<Rightarrow> Inl err
      | Inr map_now' \<Rightarrow>
     (case timedelta
             (real_to_map_seconds self (predictions_too_low_threshold_real_seconds self)) of
        Inl err \<Rightarrow> Inl err
      | Inr until_end \<Rightarrow>
     (case datetime_add map_now' until_end of
        Inl err \<Rightarrow> Inl err
      | Inr ensure_predictions_until' \<Rightarrow>
     (case timedelta (real_to_map_seconds self (predictions_chunk_real_seconds self)) of
        Inl err \<Rightarrow> Inl err
      | Inr arround \<Rightarrow>
     (case datetime_sub map_now' arround of
        Inl err \<Rightarrow> Inl err
      | Inr start_date' \<Rightarrow>
     (case datetime_add map_now' arround of
        Inl err \<Rightarrow> Inl err
      | Inr end_date' \<Rightarrow>
          Inr \<lparr> map_now = map_now', ensure_predictions_until = ensure_predictions_until',
                start_date = start_date', end_date = end_date' \<rparr>))))))"

text \<open>
  The body of the \<^verbatim>\<open>for\<close> loop over the satellites: the \<^verbatim>\<open>try\<close> with its
  \<^verbatim>\<open>except Exception\<close>, which prints the error and lets the loop go on.
\<close>

definition check_satellite ::
  "(rat \<Rightarrow> rat) \<Rightarrow> (Request \<Rightarrow> outcome) \<Rightarrow> Locals \<Rightarrow> Satellite \<Rightarrow> MapUI
     \<Rightarrow> Satellite \<times> MapUI \<times> event list" where
  "check_satellite calculate_visible_radius aio_get l satellite self =
     (case path_covers satellite (map_now l) (ensure_predictions_until l) of
        Inl err \<Rightarrow> (satellite, self, [PrintErrorCheckingOrGetting (name satellite) err])
      | Inr True \<Rightarrow> (satellite, self, [])
      | Inr False \<Rightarrow>
          (case get_path aio_get satellite (start_date l) (end_date l)
                  (predictions_refresh_real_seconds self)
                  (Some (update_satellite_in_map calculate_visible_radius)) self of
             (satellite', self', evs, None) \<Rightarrow> (satellite', self', evs)
           | (satellite', self', evs, Some err) \<Rightarrow>
               (satellite', self',
                evs @ [PrintErrorCheckingOrGetting (name satellite') err])))"

text \<open>The \<^verbatim>\<open>for\<close> loop over the values of the dict, in its order.\<close>

fun for_satellites ::
  "(rat \<Rightarrow> rat) \<Rightarrow> (Request \<Rightarrow> outcome) \<Rightarrow> Locals \<Rightarrow> (string \<times> Satellite) list \<Rightarrow> MapUI
     \<Rightarrow> (string \<times> Satellite) list \<times> MapUI \<times> event list" where
  "for_satellites cvr aio_get l [] self = ([], self, [])"
| "for_satellites cvr aio_get l ((k, satellite) # rest) self =
     (case check_satellite cvr aio_get l satellite self of
        (satellite', self', evs) \<Rightarrow>
          (case for_satellites cvr aio_get l rest self' of
             (rest', self'', evs') \<Rightarrow> ((k, satellite') # rest', self'', evs @ evs')))"

text \<open>
  One pass of the \<^verbatim>\<open>while True\<close> loop of \<^verbatim>\<open>ensure_enough_predictions\<close>, after its sleep.
  The third component is the exception that leaves the loop, if any: the one raised
  while the dates are computed, or \<^verbatim>\<open>AttributeError\<close> of \<^verbatim>\<open>.values()\<close> on a list, both
  outside the \<^verbatim>\<open>try\<close>.
\<close>

definition tick ::
  "(rat \<Rightarrow> rat) \<Rightarrow> (Request \<Rightarrow> outcome) \<Rightarrow> MapUI \<Rightarrow> MapUI \<times> event list \<times> exn option" where
  "tick cvr aio_get self =
     (case app_dashboard self of
        None \<Rightarrow> (self, [PrintChecking, PrintNoDashboard], None)
      | Some dashboard \<Rightarrow>
          (case compute_locals self of
             Inl err \<Rightarrow> (self, [PrintChecking], Some err)
           | Inr l \<Rightarrow>
               (case satellites dashboard of
                  SatellitesList xs \<Rightarrow> (self, [PrintChecking], Some AttributeError)
                | SatellitesDict d \<Rightarrow>
                    (case for_satellites cvr aio_get l d self of
                       (d', self', evs) \<Rightarrow>
                         (self'\<lparr>app_dashboard :=
                                   Some (dashboard\<lparr>satellites := SatellitesDict d'\<rparr>)\<rparr>,
                          PrintChecking # evs, None)))))"

text \<open>The requests a list of events holds, in their order.\<close>

fun requests :: "event list \<Rightarrow> Request list" where
  "requests [] = []"
| "requests (Requested r # evs) = r # requests evs"
| "requests (ev # evs) = requests evs"

subsection \<open>map\_ui.py: the refresh loop as a coroutine\<close>

text \<open>
  \<^verbatim>\<open>ensure_enough_predictions\<close> is one coroutine, started once by \<^verbatim>\<open>MapUI.__init__\<close>. It
  is suspended in exactly two places: in \<^verbatim>\<open>aio.sleep\<close> at the head of the \<^verbatim>\<open>while\<close>
  loop, and in the \<^verbatim>\<open>aio.get\<close> of \<^verbatim>\<open>get_path\<close>, which the loop body awaits. The
  machine below has one state for each place, and one for a coroutine an exception has
  ended. Its inputs are what resumes the coroutine, the end of the sleep and the return
  of the request awaited, and what another handler of the page does to the dict of
  satellites in between: it deletes a key.

  The loop body is split at its await.
\<close>

definition check_satellite_begin ::
  "Locals \<Rightarrow> rat \<Rightarrow> Satellite \<Rightarrow> event list \<times> Request option" where
  "check_satellite_begin l timeout satellite =
     (case path_covers satellite (map_now l) (ensure_predictions_until l) of
        Inl err \<Rightarrow> ([PrintErrorCheckingOrGetting (name satellite) err], None)
      | Inr True \<Rightarrow> ([], None)
      | Inr False \<Rightarrow> get_path_begin satellite (start_date l) (end_date l) timeout)"

definition check_satellite_resume ::
  "(rat \<Rightarrow> rat) \<Rightarrow> Satellite \<Rightarrow> Request \<Rightarrow> outcome \<Rightarrow> MapUI
     \<Rightarrow> Satellite \<times> MapUI \<times> event list" where
  "check_satellite_resume calculate_visible_radius satellite request outcome self =
     (case get_path_resume satellite request outcome
             (Some (update_satellite_in_map calculate_visible_radius)) self of
        (satellite', self', evs, None) \<Rightarrow> (satellite', self', evs)
      | (satellite', self', evs, Some err) \<Rightarrow>
          (satellite', self', evs @ [PrintErrorCheckingOrGetting (name satellite') err]))"

text \<open>
  What the coroutine holds while it is suspended in a request: the iterator of
  \<^verbatim>\<open>satellites.values()\<close> (the index of the satellite it gave last, the satellites it has
  yet to give, and the size of the dict when the iteration began), the satellite of the
  loop variable with its key, the request, and the dates of the pass.
\<close>

record Frame =
  fr_index :: nat
  fr_key :: string
  fr_satellite :: Satellite
  fr_rest :: "(string \<times> Satellite) list"
  fr_size :: nat
  fr_request :: Request
  fr_locals :: Locals

text \<open>
  The loop runs from the satellite with index \<open>i\<close> until a body suspends in its request
  (the frame is returned) or the satellites are exhausted. \<open>n\<close> is the size of the dict
  when the iteration began.
\<close>

fun scan ::
  "Locals \<Rightarrow> rat \<Rightarrow> nat \<Rightarrow> nat \<Rightarrow> (string \<times> Satellite) list \<Rightarrow> event list \<times> Frame option" where
  "scan l timeout n i [] = ([], None)"
| "scan l timeout n i ((k, satellite) # rest) =
     (case check_satellite_begin l timeout satellite of
        (evs, Some request) \<Rightarrow>
          (evs, Some \<lparr> fr_index = i, fr_key = k, fr_satellite = satellite, fr_rest = rest,
                       fr_size = n, fr_request = request, fr_locals = l \<rparr>)
      | (evs, None) \<Rightarrow>
          (case scan l timeout n (Suc i) rest of (evs', r) \<Rightarrow> (evs @ evs', r)))"

datatype pc =
    Sleeping
  | Awaiting Frame
  | Terminated exn

record Scheduler =
  sched_ui :: MapUI
  sched_pc :: pc
  sched_trace :: "event list"

text \<open>
  \<open>Delete k\<close> is \<^verbatim>\<open>del dashboard.satellites[k]\<close> run by another handler of the page while
  the coroutine is suspended.
\<close>

datatype input = Wake | Resolve outcome | Delete string

definition start :: "MapUI \<Rightarrow> Scheduler" where
  "start self = \<lparr> sched_ui = self, sched_pc = Sleeping, sched_trace = [] \<rparr>"

definition after_scan ::
  "MapUI \<Rightarrow> event list \<Rightarrow> event list \<times> Frame option \<Rightarrow> Scheduler" where
  "after_scan self tr res =
     (case res of
        (evs, None) \<Rightarrow> \<lparr> sched_ui = self, sched_pc = Sleeping, sched_trace = tr @ evs \<rparr>
      | (evs, Some fr) \<Rightarrow>
          \<lparr> sched_ui = self, sched_pc = Awaiting fr, sched_trace = tr @ evs \<rparr>)"

text \<open>
  The dict of satellites of the dashboard, if the dashboard has one, and the dashboard
  with another dict.
\<close>

definition satellites_dict :: "MapUI \<Rightarrow> (string \<times> Satellite) list option" where
  "satellites_dict self =
     (case app_dashboard self of
        None \<Rightarrow> None
      | Some dashboard \<Rightarrow>
          (case satellites dashboard of
             SatellitesList xs \<Rightarrow> None
           | SatellitesDict d \<Rightarrow> Some d))"

definition set_satellites_dict :: "(string \<times> Satellite) list \<Rightarrow> MapUI \<Rightarrow> MapUI" where
  "set_satellites_dict d self =
     (case app_dashboard self of
        None \<Rightarrow> self
      | Some dashboard \<Rightarrow>
          self\<lparr>app_dashboard := Some (dashboard\<lparr>satellites := SatellitesDict d\<rparr>)\<rparr>)"

text \<open>\<^verbatim>\<open>del satellites[k]\<close>; a key the dict has not raises in the handler that deletes.\<close>

definition delete_satellite :: "string \<Rightarrow> MapUI \<Rightarrow> MapUI" where
  "delete_satellite k self =
     (case satellites_dict self of
        None \<Rightarrow> self
      | Some d \<Rightarrow> set_satellites_dict (filter (\<lambda>(k', satellite). k' \<noteq> k) d) self)"

text \<open>
  The satellite under the key \<open>k\<close> is an object the coroutine has mutated: the dict
  shows it as mutated, where it still has the key.
\<close>

fun store :: "string \<Rightarrow> Satellite \<Rightarrow> (string \<times> Satellite) list \<Rightarrow> (string \<times> Satellite) list" where
  "store k satellite [] = []"
| "store k satellite ((k', satellite') # rest) =
     (if k' = k then (k', satellite) # rest else (k', satellite') # store k satellite rest)"

text \<open>
  One resumption of the coroutine, or one deletion by another handler.
  \<^item> The sleep ends: the pass runs up to its first request, or to its end.
  \<^item> The request awaited returns: the rest of the loop body runs on the satellite of the
    loop variable, whatever the dashboard holds by now. Then the \<^verbatim>\<open>for\<close> statement asks
    the iterator for the next satellite, outside the \<^verbatim>\<open>try\<close>: the iterator of a dict
    raises \<^verbatim>\<open>RuntimeError\<close> when the dict has changed size since the iteration began,
    which ends the coroutine. Otherwise the loop goes on with the satellites the
    iterator has yet to give. A dashboard without a dict is one that has been replaced:
    the iterator keeps the dict it began with.
  \<^item> A resumption the coroutine does not wait for changes nothing.
\<close>

definition step :: "(rat \<Rightarrow> rat) \<Rightarrow> Scheduler \<Rightarrow> input \<Rightarrow> Scheduler" where
  "step cvr s inp =
     (case (sched_pc s, inp) of
        (Sleeping, Wake) \<Rightarrow>
          (case app_dashboard (sched_ui s) of
             None \<Rightarrow> s\<lparr>sched_trace := sched_trace s @ [PrintChecking, PrintNoDashboard]\<rparr>
           | Some dashboard \<Rightarrow>
               (case compute_locals (sched_ui s) of
                  Inl err \<Rightarrow>
                    s\<lparr>sched_pc := Terminated err,
                      sched_trace := sched_trace s @ [PrintChecking]\<rparr>
                | Inr l \<Rightarrow>
                    (case satellites dashboard of
                       SatellitesList xs \<Rightarrow>
                         s\<lparr>sched_pc := Terminated AttributeError,
                           sched_trace := sched_trace s @ [PrintChecking]\<rparr>
                     | SatellitesDict d \<Rightarrow>
                         after_scan (sched_ui s) (sched_trace s @ [PrintChecking])
                           (scan l (predictions_refresh_real_seconds (sched_ui s))
                              (length d) 0 d))))
      | (Awaiting fr, Resolve outcome) \<Rightarrow>
          (case check_satellite_resume cvr (fr_satellite fr) (fr_request fr) outcome
                  (sched_ui s) of
             (satellite', self', evs) \<Rightarrow>
               (case satellites_dict self' of
                  None \<Rightarrow>
                    after_scan self' (sched_trace s @ evs)
                      (scan (fr_locals fr) (predictions_refresh_real_seconds self')
                         (fr_size fr) (Suc (fr_index fr)) (fr_rest fr))
                | Some d \<Rightarrow>
                    if length d = fr_size fr then
                      (let self'' = set_satellites_dict
                                      (d[fr_index fr := (fr_key fr, satellite')]) self'
                       in after_scan self'' (sched_trace s @ evs)
                            (scan (fr_locals fr) (predictions_refresh_real_seconds self'')
                               (fr_size fr) (Suc (fr_index fr)) (fr_rest fr)))
                    else
                      \<lparr> sched_ui = set_satellites_dict (store (fr_key fr) satellite' d) self',
                        sched_pc = Terminated RuntimeError,
                        sched_trace = sched_trace s @ evs \<rparr>))
      | (pc', Delete k) \<Rightarrow> s\<lparr>sched_ui := delete_satellite k (sched_ui s)\<rparr>
      | _ \<Rightarrow> s)"

fun run :: "(rat \<Rightarrow> rat) \<Rightarrow> Scheduler \<Rightarrow> input list \<Rightarrow> Scheduler" where
  "run cvr s [] = s"
| "run cvr s (inp # inps) = run cvr (step cvr s inp) inps"

text \<open>
  The coroutine resumed by the network \<open>aio_get\<close>: as long as it awaits a request, the
  request comes back with what the network gives for it (at most \<open>n\<close> times).
\<close>

fun drive :: "(rat \<Rightarrow> rat) \<Rightarrow> (Request \<Rightarrow> outcome) \<Rightarrow> nat \<Rightarrow> Scheduler \<Rightarrow> Scheduler" where
  "drive cvr aio_get 0 s = s"
| "drive cvr aio_get (Suc n) s =
     (case sched_pc s of
        Awaiting fr \<Rightarrow> drive cvr aio_get n (step cvr s (Resolve (aio_get (fr_request fr))))
      | _ \<Rightarrow> s)"

text \<open>
  The requests in flight after a list of events: those made and not yet come back.
\<close>

fun in_flight_from :: "Request list \<Rightarrow> event list \<Rightarrow> Request list" where
  "in_flight_from pending [] = pending"
| "in_flight_from pending (Requested r # evs) = in_flight_from (pending @ [r]) evs"
| "in_flight_from pending (Resolved r out # evs) = in_flight_from (remove1 r pending) evs"
| "in_flight_from pending (ev # evs) = in_flight_from pending evs"

definition in_flight :: "event list \<Rightarrow> Request list" where
  "in_flight evs = in_flight_from [] evs"

subsection \<open>Notions the properties are stated with\<close>

text \<open>
  The cached coverage window of a satellite: the two dates stored with its predictions.
  A satellite without predictions (\<^verbatim>\<open>path_positions\<close> is \<^verbatim>\<open>None\<close> or empty) has no
  coverage.
\<close>

definition coverage :: "Satellite \<Rightarrow> (datetime \<times> datetime) option" where
  "coverage satellite =
     (if truthy (path_positions satellite) then
        (case (path_start_date satellite, path_end_date satellite) of
           (Some s, Some e) \<Rightarrow> Some (s, e)
         | _ \<Rightarrow> None)
      else None)"

text \<open>
  The request \<^verbatim>\<open>get_path\<close> builds for a satellite in a pass with the dates \<open>l\<close>, and
  the condition under which the loop body reaches \<^verbatim>\<open>aio.get\<close>: the satellite has a TLE
  and \<^verbatim>\<open>path_covers\<close> has returned \<^verbatim>\<open>False\<close>.
\<close>

definition request_for :: "Locals \<Rightarrow> rat \<Rightarrow> Satellite \<Rightarrow> Request" where
  "request_for l timeout satellite =
     \<lparr> rq_satellite_id = sat_id satellite, rq_tle = tle satellite,
       rq_start_date = start_date l, rq_end_date = end_date l, rq_timeout = timeout \<rparr>"

definition needs_fetch :: "Locals \<Rightarrow> Satellite \<Rightarrow> bool" where
  "needs_fetch l satellite =
     (truthy (tle satellite)
      \<and> path_covers satellite (map_now l) (ensure_predictions_until l) = Inr False)"

text \<open>
  A fetch that fails before anything is decoded: the await raises (a transport error, or
  a timeout that raises), the response has a status other than 0 and 200, or its body
  is not JSON (as the empty body of a request that timed out).
\<close>

fun failed :: "outcome \<Rightarrow> bool" where
  "failed (Raises err) = True"
| "failed (Returns r) = (\<not> (status r = 0 \<or> status r = 200) \<or> data r = None)"

text \<open>A response whose body decodes: its status and the three decoded parts.\<close>

definition path_response ::
  "int \<Rightarrow> datetime option \<Rightarrow> datetime option \<Rightarrow> PathPosition list option \<Rightarrow> Response" where
  "path_response st s e ps =
     \<lparr> status = st,
       data = Some \<lparr> pd_start_date = s, pd_end_date = e, pd_positions = ps \<rparr> \<rparr>"

text \<open>
  Two states of the map UI agree on everything but the entities of the viewer.
\<close>

definition same_config :: "MapUI \<Rightarrow> MapUI \<Rightarrow> bool" where
  "same_config ui ui' =
     (app_dashboard ui' = app_dashboard ui \<and> clock (viewer ui') = clock (viewer ui)
      \<and> predictions_refresh_real_seconds ui' = predictions_refresh_real_seconds ui
      \<and> predictions_chunk_real_seconds ui' = predictions_chunk_real_seconds ui
      \<and> predictions_too_low_threshold_real_seconds ui' =
          predictions_too_low_threshold_real_seconds ui
      \<and> paths_visible ui' = paths_visible ui \<and> sensors_visible ui' = sensors_visible ui)"

text \<open>
  Starting with the requests \<open>pending\<close>, at no moment of the list of events are two
  requests in flight.
\<close>

fun calm :: "Request list \<Rightarrow> event list \<Rightarrow> bool" where
  "calm pending [] = (length pending \<le> 1)"
| "calm pending (ev # evs) = (length pending \<le> 1 \<and> calm (in_flight_from pending [ev]) evs)"

text \<open>
  The invariant of the coroutine: the requests in flight are the one it awaits, if it
  awaits one, and there never were two.
\<close>

definition sched_inv :: "Scheduler \<Rightarrow> bool" where
  "sched_inv s =
     (calm [] (sched_trace s) \<and>
      in_flight (sched_trace s) =
        (case sched_pc s of Awaiting fr \<Rightarrow> [fr_request fr] | _ \<Rightarrow> []))"

subsection \<open>Concrete inputs\<close>

text \<open>
  A position, a satellite with a TLE and no predictions yet, the same satellite with
  predictions over a window, a clock at date 0 (the first second of 1970) running at
  the speed of real time, a dashboard and the map UI \<^verbatim>\<open>MapUI.__init__\<close> builds for it.
  With this clock a pass looks at the window from 0 to 900 and asks for the window from
  -1800 to 1800.
\<close>

definition example_position :: PathPosition where
  "example_position =
     \<lparr> at_date = ''2023-04-06T00:00:00'', latitude = 10, longitude = 20, altitude = 400,
       cesium_date = 0, cesium_position = (1, 2, 3) \<rparr>"

definition example_satellite :: "string \<Rightarrow> Satellite" where
  "example_satellite i =
     \<lparr> sat_id = i, from_db = True, name = i, description = ''a satellite'',
       norad_id = Some 25544, tle = Some ''1 25544U 98067A'', tle_date = Some 0,
       style = Style_init,
       path_positions = None, path_start_date = None, path_end_date = None \<rparr>"

definition example_covered_satellite :: "string \<Rightarrow> datetime \<Rightarrow> datetime \<Rightarrow> Satellite" where
  "example_covered_satellite i s e =
     (example_satellite i)\<lparr>path_positions := Some [example_position],
        path_start_date := Some s, path_end_date := Some e\<rparr>"

definition example_clock :: Clock where
  "example_clock = \<lparr> currentTime = 0, clockStep = 1, multiplier = 1, shouldAnimate = True \<rparr>"

definition example_dashboard :: "(string \<times> Satellite) list \<Rightarrow> Dashboard" where
  "example_dashboard d =
     \<lparr> dashboard_id = ''1'', dashboard_name = ''New dashboard'',
       satellites = SatellitesDict d \<rparr>"

definition example_ui :: "(string \<times> Satellite) list \<Rightarrow> MapUI" where
  "example_ui d = MapUI_init (Some (example_dashboard d)) example_clock"


text \<open>A stand-in for \<^verbatim>\<open>calculate_visible_radius\<close>.\<close>

definition example_radius :: "rat \<Rightarrow> rat" where
  "example_radius altitude' = 2 * altitude'"

text \<open>The dates of a pass with the clock of the example.\<close>

definition example_locals :: Locals where
  "example_locals =
     \<lparr> map_now = 0, ensure_predictions_until = 900, start_date = - 1800, end_date = 1800 \<rparr>"

definition example_request :: "string \<Rightarrow> Request" where
  "example_request i =
     \<lparr> rq_satellite_id = i, rq_tle = Some ''1 25544U 98067A'',
       rq_start_date = - 1800, rq_end_date = 1800, rq_timeout = 5 \<rparr>"

text \<open>
  A network on which the request for the satellite \<^verbatim>\<open>A\<close> raises and every other request
  is answered with predictions over the window asked for.
\<close>

definition example_aio_get :: "Request \<Rightarrow> outcome" where
  "example_aio_get rq =
     (if rq_satellite_id rq = ''A'' then Raises RequestError
      else Returns (path_response 200 (Some (rq_start_date rq)) (Some (rq_end_date rq))
                      (Some [example_position])))"

section \<open>Auxiliary lemmas\<close>

lemma ids_differ [simp]:
  "''SatelliteTracker.Satellite:'' @ a \<noteq> ''SatelliteTracker.SatelliteSensor:'' @ b"
  "''SatelliteTracker.SatelliteSensor:'' @ b \<noteq> ''SatelliteTracker.Satellite:'' @ a"
  by simp_all

lemma same_config_refl [simp]: "same_config ui ui"
  by (simp add: same_config_def)

lemma same_config_trans: "same_config a b \<Longrightarrow> same_config b c \<Longrightarrow> same_config a c"
  by (simp add: same_config_def)

lemma update_entity_fields [simp]:
  "app_dashboard (update_entity i f ui) = app_dashboard ui"
  "clock (viewer (update_entity i f ui)) = clock (viewer ui)"
  "predictions_refresh_real_seconds (update_entity i f ui) = predictions_refresh_real_seconds ui"
  "predictions_chunk_real_seconds (update_entity i f ui) = predictions_chunk_real_seconds ui"
  "predictions_too_low_threshold_real_seconds (update_entity i f ui) =
     predictions_too_low_threshold_real_seconds ui"
  "paths_visible (update_entity i f ui) = paths_visible ui"
  "sensors_visible (update_entity i f ui) = sensors_visible ui"
  by (simp_all add: update_entity_def split: option.splits)

lemma get_or_create_satellite_entity_fields [simp]:
  "fst (get_or_create_satellite_entity ui sat) = ''SatelliteTracker.Satellite:'' @ sat_id sat"
  "app_dashboard (snd (get_or_create_satellite_entity ui sat)) = app_dashboard ui"
  "clock (viewer (snd (get_or_create_satellite_entity ui sat))) = clock (viewer ui)"
  "predictions_refresh_real_seconds (snd (get_or_create_satellite_entity ui sat)) =
     predictions_refresh_real_seconds ui"
  "predictions_chunk_real_seconds (snd (get_or_create_satellite_entity ui sat)) =
     predictions_chunk_real_seconds ui"
  "predictions_too_low_threshold_real_seconds (snd (get_or_create_satellite_entity ui sat)) =
     predictions_too_low_threshold_real_seconds ui"
  "paths_visible (snd (get_or_create_satellite_entity ui sat)) = paths_visible ui"
  "sensors_visible (snd (get_or_create_satellite_entity ui sat)) = sensors_visible ui"
  by (simp_all add: get_or_create_satellite_entity_def Let_def split: option.splits)

lemma get_or_create_satellite_sensor_entity_fields [simp]:
  "fst (get_or_create_satellite_sensor_entity ui sat) =
     ''SatelliteTracker.SatelliteSensor:'' @ sat_id sat"
  "app_dashboard (snd (get_or_create_satellite_sensor_entity ui sat)) = app_dashboard ui"
  "clock (viewer (snd (get_or_create_satellite_sensor_entity ui sat))) = clock (viewer ui)"
  "predictions_refresh_real_seconds (snd (get_or_create_satellite_sensor_entity ui sat)) =
     predictions_refresh_real_seconds ui"
  "predictions_chunk_real_seconds (snd (get_or_create_satellite_sensor_entity ui sat)) =
     predictions_chunk_real_seconds ui"
  "predictions_too_low_threshold_real_seconds (snd (get_or_create_satellite_sensor_entity ui sat)) =
     predictions_too_low_threshold_real_seconds ui"
  "paths_visible (snd (get_or_create_satellite_sensor_entity ui sat)) = paths_visible ui"
  "sensors_visible (snd (get_or_create_satellite_sensor_entity ui sat)) = sensors_visible ui"
  by (simp_all add: get_or_create_satellite_sensor_entity_def Let_def split: option.splits)

lemma update_satellite_in_map_same_config:
  "same_config ui (fst (update_satellite_in_map cvr sat ui))"
  unfolding update_satellite_in_map_def Let_def case_prod_beta same_config_def
  by (simp split: option.splits)

lemma entities_update_entity [simp]:
  "entities (viewer (update_entity i f ui)) j =
     (if j = i then map_option f (entities (viewer ui) i) else entities (viewer ui) j)"
  by (simp add: update_entity_def split: option.splits)

lemma entities_get_or_create_satellite_entity [simp]:
  "entities (viewer (snd (get_or_create_satellite_entity ui sat))) j =
     (if j = ''SatelliteTracker.Satellite:'' @ sat_id sat
      then Some (case entities (viewer ui) j of None \<Rightarrow> new_entity j | Some e \<Rightarrow> e)
      else entities (viewer ui) j)"
  by (simp add: get_or_create_satellite_entity_def Let_def split: option.splits)

lemma entities_get_or_create_satellite_sensor_entity [simp]:
  "entities (viewer (snd (get_or_create_satellite_sensor_entity ui sat))) j =
     (if j = ''SatelliteTracker.SatelliteSensor:'' @ sat_id sat
      then Some (case entities (viewer ui) j of None \<Rightarrow> new_entity j | Some e \<Rightarrow> e)
      else entities (viewer ui) j)"
  by (simp add: get_or_create_satellite_sensor_entity_def Let_def split: option.splits)

lemma update_satellite_in_map_success:
  assumes "path_start_date sat = Some s" "path_end_date sat = Some e"
    "path_positions sat = Some ps"
  shows "snd (update_satellite_in_map cvr sat ui) = None"
    and "\<exists>ent. entities (viewer (fst (update_satellite_in_map cvr sat ui)))
                 (''SatelliteTracker.Satellite:'' @ sat_id sat) = Some ent
           \<and> entity_name ent = Some (name sat)
           \<and> availability ent = [(s, e)]
           \<and> position ent = Some (map (\<lambda>p. (cesium_date p, cesium_position p)) ps)"
  using assms unfolding update_satellite_in_map_def Let_def case_prod_beta
  by simp_all

lemma update_entity_app_dashboard:
  "update_entity i f (ui\<lparr>app_dashboard := d\<rparr>) = (update_entity i f ui)\<lparr>app_dashboard := d\<rparr>"
  by (simp add: update_entity_def split: option.splits)

lemma get_or_create_satellite_entity_app_dashboard:
  "get_or_create_satellite_entity (ui\<lparr>app_dashboard := d\<rparr>) sat =
     (fst (get_or_create_satellite_entity ui sat),
      (snd (get_or_create_satellite_entity ui sat))\<lparr>app_dashboard := d\<rparr>)"
  by (simp add: get_or_create_satellite_entity_def Let_def split: option.splits)

lemma get_or_create_satellite_sensor_entity_app_dashboard:
  "get_or_create_satellite_sensor_entity (ui\<lparr>app_dashboard := d\<rparr>) sat =
     (fst (get_or_create_satellite_sensor_entity ui sat),
      (snd (get_or_create_satellite_sensor_entity ui sat))\<lparr>app_dashboard := d\<rparr>)"
  by (simp add: get_or_create_satellite_sensor_entity_def Let_def split: option.splits)

lemma update_satellite_in_map_app_dashboard:
  "update_satellite_in_map cvr sat (ui\<lparr>app_dashboard := d\<rparr>) =
     (fst (update_satellite_in_map cvr sat ui)\<lparr>app_dashboard := d\<rparr>,
      snd (update_satellite_in_map cvr sat ui))"
  unfolding update_satellite_in_map_def Let_def case_prod_beta
  by (simp add: update_entity_app_dashboard get_or_create_satellite_entity_app_dashboard
      get_or_create_satellite_sensor_entity_app_dashboard split: option.splits)

lemma requests_append [simp]: "requests (xs @ ys) = requests xs @ requests ys"
  by (induction xs rule: requests.induct) simp_all

lemma on_path_received_requests [simp]:
  "requests (fst (snd (snd (on_path_received self r cb w)))) = []"
  by (simp add: on_path_received_def Let_def split: option.splits prod.splits)

lemma get_path_resume_requests [simp]:
  "requests (fst (snd (snd (get_path_resume self rq out cb w)))) = []"
  by (simp add: get_path_resume_def case_prod_beta split: outcome.splits)

lemma get_path_requests:
  "requests (fst (snd (snd (get_path aio_get self s e t cb w)))) =
     (if truthy (tle self)
      then [\<lparr> rq_satellite_id = sat_id self, rq_tle = tle self, rq_start_date = s,
              rq_end_date = e, rq_timeout = t \<rparr>]
      else [])"
  by (simp add: get_path_def get_path_begin_def Let_def case_prod_beta)

lemma check_satellite_requests:
  "requests (snd (snd (check_satellite cvr aio_get l satellite self))) =
     (if needs_fetch l satellite
      then [request_for l (predictions_refresh_real_seconds self) satellite] else [])"
  by (auto simp: check_satellite_def needs_fetch_def request_for_def get_path_requests
      dest: arg_cong[where f="\<lambda>p. requests (fst (snd (snd p)))"]
      split: sum.splits bool.splits prod.splits option.splits)

lemma on_path_received_same_config:
  "same_config ui (fst (snd (on_path_received self r
      (Some (update_satellite_in_map cvr)) ui)))"
  using update_satellite_in_map_same_config
  by (simp add: on_path_received_def Let_def case_prod_beta split: option.splits)

lemma get_path_resume_same_config:
  "same_config ui (fst (snd (get_path_resume self rq out
      (Some (update_satellite_in_map cvr)) ui)))"
  using on_path_received_same_config
  by (simp add: get_path_resume_def case_prod_beta split: outcome.splits)

lemma check_satellite_resume_same_config:
  "same_config ui (fst (snd (check_satellite_resume cvr satellite rq out ui)))"
  using get_path_resume_same_config[of ui satellite rq out cvr]
  by (auto simp: check_satellite_resume_def split: prod.splits option.splits)

lemma check_satellite_split:
  "check_satellite cvr aio_get l satellite self =
     (case check_satellite_begin l (predictions_refresh_real_seconds self) satellite of
        (evs, None) \<Rightarrow> (satellite, self, evs)
      | (evs, Some request) \<Rightarrow>
          (case check_satellite_resume cvr satellite request (aio_get request) self of
             (satellite', self', evs') \<Rightarrow> (satellite', self', evs @ evs')))"
  by (simp add: check_satellite_def check_satellite_begin_def check_satellite_resume_def
      get_path_def get_path_begin_def Let_def
      split: sum.splits bool.splits prod.splits option.splits)

lemma check_satellite_same_config:
  "same_config ui (fst (snd (check_satellite cvr aio_get l satellite ui)))"
  using check_satellite_resume_same_config
  by (simp add: check_satellite_split case_prod_beta split: option.splits)

lemma for_satellites_same_config:
  "same_config ui (fst (snd (for_satellites cvr aio_get l d ui)))"
proof (induction d arbitrary: ui)
  case Nil
  then show ?case by simp
next
  case (Cons a d)
  obtain k satellite where a: "a = (k, satellite)" by (cases a)
  show ?case
    using Cons.IH[of "fst (snd (check_satellite cvr aio_get l satellite ui))"]
      check_satellite_same_config[of ui cvr aio_get l satellite]
    by (auto simp: a case_prod_beta intro: same_config_trans)
qed

lemma for_satellites_requests:
  "requests (snd (snd (for_satellites cvr aio_get l d ui))) =
     map (\<lambda>(k, satellite). request_for l (predictions_refresh_real_seconds ui) satellite)
       (filter (\<lambda>(k, satellite). needs_fetch l satellite) d)"
proof (induction d arbitrary: ui)
  case Nil
  then show ?case by simp
next
  case (Cons a d)
  obtain k satellite where a: "a = (k, satellite)" by (cases a)
  let ?ui' = "fst (snd (check_satellite cvr aio_get l satellite ui))"
  have "predictions_refresh_real_seconds ?ui' = predictions_refresh_real_seconds ui"
    using check_satellite_same_config[of ui cvr aio_get l satellite]
    by (simp add: same_config_def)
  then show ?case
    using Cons.IH[of ?ui'] check_satellite_requests[of cvr aio_get l satellite ui]
    by (simp add: a case_prod_beta)
qed

lemma for_satellites_append:
  "for_satellites cvr aio_get l (xs @ ys) ui =
     (case for_satellites cvr aio_get l xs ui of
        (xs', ui', evs) \<Rightarrow>
          (case for_satellites cvr aio_get l ys ui' of
             (ys', ui'', evs') \<Rightarrow> (xs' @ ys', ui'', evs @ evs')))"
  by (induction xs arbitrary: ui) (auto split: prod.splits)

lemma get_path_resume_failed:
  "failed out \<Longrightarrow> \<exists>evs x. get_path_resume self rq out cb w = (self, w, evs, x)"
  by (cases out) (auto simp: get_path_resume_def on_path_received_def)

lemma check_satellite_failed:
  assumes "needs_fetch l A"
    and "failed (aio_get (request_for l (predictions_refresh_real_seconds self) A))"
  shows "\<exists>evs. check_satellite cvr aio_get l A self = (A, self, evs)"
proof -
  obtain evs x where
    "get_path_resume A (request_for l (predictions_refresh_real_seconds self) A)
       (aio_get (request_for l (predictions_refresh_real_seconds self) A))
       (Some (update_satellite_in_map cvr)) self = (A, self, evs, x)"
    using get_path_resume_failed[OF assms(2), where self = A and w = self
        and cb = "Some (update_satellite_in_map cvr)"]
    by blast
  then show ?thesis
    using assms(1)
    by (cases x)
       (simp_all add: check_satellite_def needs_fetch_def get_path_def get_path_begin_def
          request_for_def Let_def)
qed

lemma for_satellites_length:
  "length (fst (for_satellites cvr aio_get l d self)) = length d"
  by (induction d arbitrary: self) (auto simp: case_prod_beta)

lemma for_satellites_unchanged:
  assumes "\<And>ui. predictions_refresh_real_seconds ui = predictions_refresh_real_seconds self
             \<Longrightarrow> \<exists>evs. check_satellite cvr aio_get l A ui = (A, ui, evs)"
  shows "fst (for_satellites cvr aio_get l (pre @ (k, A) # rest) self) =
           take (length pre) (fst (for_satellites cvr aio_get l (pre @ rest) self))
           @ (k, A) # drop (length pre) (fst (for_satellites cvr aio_get l (pre @ rest) self))"
    and "fst (snd (for_satellites cvr aio_get l (pre @ (k, A) # rest) self)) =
           fst (snd (for_satellites cvr aio_get l (pre @ rest) self))"
proof -
  let ?self1 = "fst (snd (for_satellites cvr aio_get l pre self))"
  have "predictions_refresh_real_seconds ?self1 = predictions_refresh_real_seconds self"
    using for_satellites_same_config[of self cvr aio_get l pre] by (simp add: same_config_def)
  then obtain evs where A: "check_satellite cvr aio_get l A ?self1 = (A, ?self1, evs)"
    using assms by blast
  show "fst (for_satellites cvr aio_get l (pre @ (k, A) # rest) self) =
           take (length pre) (fst (for_satellites cvr aio_get l (pre @ rest) self))
           @ (k, A) # drop (length pre) (fst (for_satellites cvr aio_get l (pre @ rest) self))"
    using A by (simp add: for_satellites_append case_prod_beta for_satellites_length)
  show "fst (snd (for_satellites cvr aio_get l (pre @ (k, A) # rest) self)) =
           fst (snd (for_satellites cvr aio_get l (pre @ rest) self))"
    using A by (simp add: for_satellites_append case_prod_beta)
qed

lemma check_satellite_no_tle:
  assumes "\<not> truthy (tle A)"
  shows "\<exists>evs. check_satellite cvr aio_get l A ui = (A, ui, evs) \<and> requests evs = []"
  using assms
  by (simp add: check_satellite_def get_path_def get_path_begin_def
      split: sum.splits bool.splits)

lemma tick_dict:
  assumes "app_dashboard self = Some dashboard" "satellites dashboard = SatellitesDict d"
    and "compute_locals self = Inr l"
  shows "tick cvr aio_get self =
     (fst (snd (for_satellites cvr aio_get l d self))
        \<lparr>app_dashboard := Some (dashboard\<lparr>satellites := SatellitesDict
            (fst (for_satellites cvr aio_get l d self))\<rparr>)\<rparr>,
      PrintChecking # snd (snd (for_satellites cvr aio_get l d self)),
      None)"
  using assms by (simp add: tick_def case_prod_beta)

lemma in_flight_from_append:
  "in_flight_from p (xs @ ys) = in_flight_from (in_flight_from p xs) ys"
  by (induction p xs rule: in_flight_from.induct) simp_all

lemma in_flight_from_Cons:
  "in_flight_from p (ev # evs) = in_flight_from (in_flight_from p [ev]) evs"
  using in_flight_from_append[of p "[ev]" evs] by simp

lemma calm_append:
  "calm p (xs @ ys) = (calm p xs \<and> calm (in_flight_from p xs) ys)"
proof (induction xs arbitrary: p)
  case Nil
  show ?case by (cases ys) auto
next
  case (Cons ev xs)
  show ?case
    using Cons.IH[of "in_flight_from p [ev]"] in_flight_from_Cons[of p ev xs]
    by auto
qed

lemma calm_take: "calm p evs \<Longrightarrow> length (in_flight_from p (take n evs)) \<le> 1"
proof (induction evs arbitrary: p n)
  case Nil
  then show ?case by simp
next
  case (Cons ev evs)
  show ?case
  proof (cases n)
    case 0
    then show ?thesis using Cons.prems by simp
  next
    case (Suc m)
    then show ?thesis
      using Cons.IH[of "in_flight_from p [ev]" m] Cons.prems
        in_flight_from_Cons[of p ev "take m evs"]
      by simp
  qed
qed

lemma check_satellite_begin_calm:
  "calm [] (fst (check_satellite_begin l t sat))"
  "in_flight_from [] (fst (check_satellite_begin l t sat)) =
     (case snd (check_satellite_begin l t sat) of None \<Rightarrow> [] | Some rq \<Rightarrow> [rq])"
  by (simp_all add: check_satellite_begin_def get_path_begin_def Let_def
      split: sum.splits bool.splits)

lemma scan_calm:
  "calm [] (fst (scan l t n i d)) \<and>
   in_flight_from [] (fst (scan l t n i d)) =
     (case snd (scan l t n i d) of None \<Rightarrow> [] | Some fr \<Rightarrow> [fr_request fr])"
proof (induction d arbitrary: i)
  case Nil
  show ?case by simp
next
  case (Cons a d)
  obtain k sat where a: "a = (k, sat)" by (cases a)
  show ?case
    using Cons.IH[of "Suc i"] check_satellite_begin_calm[of l t sat]
    by (cases "check_satellite_begin l t sat"; cases "snd (check_satellite_begin l t sat)")
       (auto simp: a calm_append in_flight_from_append case_prod_beta)
qed

lemma on_path_received_calm:
  "in_flight_from p (fst (snd (snd (on_path_received self r cb w)))) = p"
  "calm p (fst (snd (snd (on_path_received self r cb w)))) = (length p \<le> 1)"
  by (auto simp: on_path_received_def Let_def case_prod_beta split: option.splits)

lemma check_satellite_resume_calm:
  "calm [rq] (snd (snd (check_satellite_resume cvr sat rq out ui))) \<and>
   in_flight_from [rq] (snd (snd (check_satellite_resume cvr sat rq out ui))) = []"
proof (cases out)
  case (Raises err)
  then show ?thesis
    by (simp add: check_satellite_resume_def get_path_resume_def)
next
  case (Returns r)
  obtain a b c x where o:
    "on_path_received sat r (Some (update_satellite_in_map cvr)) ui = (a, b, c, x)"
    by (cases "on_path_received sat r (Some (update_satellite_in_map cvr)) ui") auto
  have c: "in_flight_from [] c = []" "calm [] c"
    using on_path_received_calm[of "[]" sat r "Some (update_satellite_in_map cvr)" ui]
    by (simp_all add: o)
  show ?thesis
    using c
    by (cases x)
       (simp_all add: Returns check_satellite_resume_def get_path_resume_def o
          calm_append in_flight_from_append)
qed

lemma after_scan_inv:
  assumes "calm [] tr" "in_flight_from [] tr = []"
  shows "sched_inv (after_scan self tr (scan l t n i d))"
  using assms scan_calm[of l t n i d]
  by (cases "scan l t n i d"; cases "snd (scan l t n i d)")
     (auto simp: sched_inv_def after_scan_def in_flight_def calm_append in_flight_from_append)

lemma start_inv: "sched_inv (start self)"
  by (simp add: sched_inv_def start_def in_flight_def)

lemma sched_inv_ui: "sched_inv (s\<lparr>sched_ui := ui\<rparr>) = sched_inv s"
  by (simp add: sched_inv_def)

lemma step_Delete: "step cvr s (Delete k) = s\<lparr>sched_ui := delete_satellite k (sched_ui s)\<rparr>"
  by (cases "sched_pc s") (simp_all add: step_def)

lemma step_inv:
  assumes "sched_inv s"
  shows "sched_inv (step cvr s inp)"
proof (cases inp)
  case (Delete k)
  then show ?thesis using assms by (simp add: step_Delete sched_inv_ui)
next
  case Wake
  show ?thesis
  proof (cases "sched_pc s")
    case Sleeping
    have tr: "calm [] (sched_trace s)" "in_flight_from [] (sched_trace s) = []"
      using assms Sleeping by (simp_all add: sched_inv_def in_flight_def)
    show ?thesis
    proof (cases "app_dashboard (sched_ui s)")
      case None
      then show ?thesis
        using tr Sleeping Wake
        by (simp add: step_def sched_inv_def in_flight_def calm_append in_flight_from_append)
    next
      case (Some dashboard)
      show ?thesis
      proof (cases "compute_locals (sched_ui s)")
        case (Inl err)
        then show ?thesis
          using tr Sleeping Wake Some
          by (simp add: step_def sched_inv_def in_flight_def calm_append
              in_flight_from_append)
      next
        case (Inr l)
        show ?thesis
        proof (cases "satellites dashboard")
          case (SatellitesList xs)
          then show ?thesis
            using tr Sleeping Wake Some Inr
            by (simp add: step_def sched_inv_def in_flight_def calm_append
                in_flight_from_append)
        next
          case (SatellitesDict d)
          have "sched_inv (after_scan (sched_ui s) (sched_trace s @ [PrintChecking])
                  (scan l (predictions_refresh_real_seconds (sched_ui s)) (length d) 0 d))"
            using tr by (intro after_scan_inv) (simp_all add: calm_append in_flight_from_append)
          then show ?thesis
            using Sleeping Wake Some Inr SatellitesDict by (simp add: step_def)
        qed
      qed
    qed
  next
    case (Awaiting fr)
    then show ?thesis using assms Wake by (simp add: step_def)
  next
    case (Terminated err)
    then show ?thesis using assms Wake by (simp add: step_def)
  qed
next
  case (Resolve out)
  show ?thesis
  proof (cases "sched_pc s")
    case Sleeping
    then show ?thesis using assms Resolve by (simp add: step_def)
  next
    case (Terminated err)
    then show ?thesis using assms Resolve by (simp add: step_def)
  next
    case (Awaiting fr)
    have tr: "calm [] (sched_trace s)" "in_flight_from [] (sched_trace s) = [fr_request fr]"
      using assms Awaiting by (simp_all add: sched_inv_def in_flight_def)
    obtain sat' self' evs where r:
      "check_satellite_resume cvr (fr_satellite fr) (fr_request fr) out (sched_ui s) =
         (sat', self', evs)"
      by (cases "check_satellite_resume cvr (fr_satellite fr) (fr_request fr) out
                   (sched_ui s)") auto
    have evs: "calm [fr_request fr] evs" "in_flight_from [fr_request fr] evs = []"
      using check_satellite_resume_calm[of "fr_request fr" cvr "fr_satellite fr" out
          "sched_ui s"]
      by (simp_all add: r)
    have go_on: "sched_inv (after_scan ui' (sched_trace s @ evs) (scan l t n i d'))"
      for ui' l t n i d'
      using tr evs
      by (intro after_scan_inv) (simp_all add: calm_append in_flight_from_append)
    have ended: "sched_inv \<lparr> sched_ui = ui', sched_pc = Terminated RuntimeError,
                            sched_trace = sched_trace s @ evs \<rparr>" for ui'
      using tr evs
      by (simp add: sched_inv_def in_flight_def calm_append in_flight_from_append)
    show ?thesis
    proof (cases "satellites_dict self'")
      case None
      then show ?thesis
        using Awaiting Resolve r go_on by (simp add: step_def)
    next
      case (Some d)
      then show ?thesis
        using Awaiting Resolve r go_on ended by (simp add: step_def Let_def)
    qed
  qed
qed

lemma run_inv: "sched_inv s \<Longrightarrow> sched_inv (run cvr s inps)"
  by (induction inps arbitrary: s) (simp_all add: step_inv)

lemmas example_defs =
  example_position_def example_satellite_def example_clock_def example_dashboard_def
  example_ui_def example_radius_def example_request_def path_response_def MapUI_init_def
  real_to_map_seconds_def Style_init_def

text \<open>The arithmetic of dates where nothing is out of range.\<close>

lemma round_half_even_of_int [simp]: "round_half_even (of_int n) = n"
  by (simp add: round_half_even_def)



lemma timedelta_whole:
  assumes "- 86399999913600 \<le> n" "n \<le> 86399999913600"
  shows "timedelta (of_int n) = Inr (of_int n)"
proof -
  have r: "round_half_even (of_int n * 1000000) = n * 1000000"
    using round_half_even_of_int[of "n * 1000000"] by simp
  have "- 999999999 \<le> (n * 1000000) div 86400000000"
    "(n * 1000000) div 86400000000 \<le> 999999999"
    using assms by auto
  then show ?thesis
    by (simp add: timedelta_def r Let_def)
qed

text \<open>
  The dates of a pass are computed exactly when the date of the clock, the two spans and
  the three dates computed from them are in range.
\<close>

lemma compute_locals_Inr:
  "(compute_locals self = Inr l) =
     (\<exists>ahead around.
        cesium_date_to_datetime (currentTime (clock (viewer self))) = Inr (map_now l)
        \<and> timedelta (real_to_map_seconds self
             (predictions_too_low_threshold_real_seconds self)) = Inr ahead
        \<and> timedelta (real_to_map_seconds self
             (predictions_chunk_real_seconds self)) = Inr around
        \<and> valid_datetime (map_now l + ahead) \<and> valid_datetime (map_now l - around)
        \<and> valid_datetime (map_now l + around)
        \<and> l = \<lparr> map_now = map_now l, ensure_predictions_until = map_now l + ahead,
                 start_date = map_now l - around, end_date = map_now l + around \<rparr>)"
  by (auto simp: compute_locals_def datetime_add_def datetime_sub_def
      split: sum.splits if_splits)

lemma ex_locals: "compute_locals (example_ui d) = Inr example_locals"
proof -
  have t: "timedelta 900 = Inr 900" "timedelta 1800 = Inr 1800"
    using timedelta_whole[of 900] timedelta_whole[of 1800] by simp_all
  show ?thesis
    by (simp add: compute_locals_def example_ui_def MapUI_init_def example_clock_def
        real_to_map_seconds_def cesium_date_to_datetime_def valid_datetime_def
        datetime_add_def datetime_sub_def t example_locals_def)
qed

lemma example_ui_fields:
  "app_dashboard (example_ui d) = Some (example_dashboard d)"
  "predictions_refresh_real_seconds (example_ui d) = 5"
  "predictions_chunk_real_seconds (example_ui d) = 1800"
  "predictions_too_low_threshold_real_seconds (example_ui d) = 900"
  "paths_visible (example_ui d) = True"
  "sensors_visible (example_ui d) = True"
  "entities (viewer (example_ui d)) = Map.empty"
  "satellites (example_dashboard d) = SatellitesDict d"
  "currentTime (clock (viewer (example_ui d))) = 0"
  "real_to_map_seconds (example_ui d) x = x"
  by (simp_all add: example_ui_def MapUI_init_def example_dashboard_def example_clock_def
      real_to_map_seconds_def)

lemmas eval_defs =
  ex_locals example_locals_def example_ui_fields check_satellite_def get_path_def get_path_begin_def
  get_path_resume_def on_path_received_def path_covers_def py_le_def py_ge_def
  example_covered_satellite_def example_satellite_def example_request_def
  path_response_def check_satellite_begin_def check_satellite_resume_def Let_def

lemma on_path_received_success:
  assumes "st = 0 \<or> st = 200"
  shows "on_path_received self (path_response st (Some s) (Some e) (Some ps)) (Some cb) w =
     (self\<lparr>path_start_date := Some s, path_end_date := Some e, path_positions := Some ps\<rparr>,
      fst (cb (self\<lparr>path_start_date := Some s, path_end_date := Some e,
                   path_positions := Some ps\<rparr>) w),
      [PrintPathReceived (name self)],
      snd (cb (self\<lparr>path_start_date := Some s, path_end_date := Some e,
                   path_positions := Some ps\<rparr>) w))"
  using assms by (auto simp: on_path_received_def path_response_def Let_def case_prod_beta)

lemma check_satellite_resume_success:
  assumes "st = 0 \<or> st = 200"
  shows "check_satellite_resume cvr satellite rq
           (Returns (path_response st (Some s) (Some e) (Some ps))) ui =
     (satellite\<lparr>path_start_date := Some s, path_end_date := Some e,
                 path_positions := Some ps\<rparr>,
      fst (update_satellite_in_map cvr
             (satellite\<lparr>path_start_date := Some s, path_end_date := Some e,
                         path_positions := Some ps\<rparr>) ui),
      [Resolved rq (Returns (path_response st (Some s) (Some e) (Some ps))),
       PrintPathReceived (name satellite)])"
  using update_satellite_in_map_success(1)[of
      "satellite\<lparr>path_start_date := Some s, path_end_date := Some e,
                  path_positions := Some ps\<rparr>" s e ps cvr ui]
  by (simp add: check_satellite_resume_def get_path_resume_def
      on_path_received_success[OF assms])

text \<open>
  The coroutine and the pass are the same program: woken up and resumed by the network
  until it sleeps again, the coroutine has done what \<open>tick\<close> does.
\<close>

lemma drive_Sleeping [simp]: "sched_pc s = Sleeping \<Longrightarrow> drive cvr aio_get n s = s"
  by (cases n) simp_all

lemma on_path_received_app_dashboard:
  "on_path_received sat r (Some (update_satellite_in_map cvr)) (ui\<lparr>app_dashboard := x\<rparr>) =
     (fst (on_path_received sat r (Some (update_satellite_in_map cvr)) ui),
      (fst (snd (on_path_received sat r (Some (update_satellite_in_map cvr)) ui)))
        \<lparr>app_dashboard := x\<rparr>,
      snd (snd (on_path_received sat r (Some (update_satellite_in_map cvr)) ui)))"
  by (simp add: on_path_received_def Let_def update_satellite_in_map_app_dashboard
      case_prod_beta split: option.splits)

lemma check_satellite_resume_app_dashboard:
  "check_satellite_resume cvr sat rq out (ui\<lparr>app_dashboard := x\<rparr>) =
     (fst (check_satellite_resume cvr sat rq out ui),
      (fst (snd (check_satellite_resume cvr sat rq out ui)))\<lparr>app_dashboard := x\<rparr>,
      snd (snd (check_satellite_resume cvr sat rq out ui)))"
  by (cases out)
     (auto simp: check_satellite_resume_def get_path_resume_def
        on_path_received_app_dashboard case_prod_beta split: option.splits)

lemma check_satellite_app_dashboard:
  "check_satellite cvr aio_get l sat (ui\<lparr>app_dashboard := x\<rparr>) =
     (fst (check_satellite cvr aio_get l sat ui),
      (fst (snd (check_satellite cvr aio_get l sat ui)))\<lparr>app_dashboard := x\<rparr>,
      snd (snd (check_satellite cvr aio_get l sat ui)))"
  by (simp add: check_satellite_split check_satellite_resume_app_dashboard case_prod_beta
      split: option.splits)

lemma for_satellites_app_dashboard:
  "for_satellites cvr aio_get l d (ui\<lparr>app_dashboard := x\<rparr>) =
     (fst (for_satellites cvr aio_get l d ui),
      (fst (snd (for_satellites cvr aio_get l d ui)))\<lparr>app_dashboard := x\<rparr>,
      snd (snd (for_satellites cvr aio_get l d ui)))"
proof (induction d arbitrary: ui)
  case Nil
  show ?case by simp
next
  case (Cons a d)
  obtain k sat where a: "a = (k, sat)" by (cases a)
  show ?case
    by (simp add: a check_satellite_app_dashboard Cons.IH case_prod_beta)
qed


lemma drive_Terminated [simp]:
  "sched_pc s = Terminated err \<Longrightarrow> drive cvr aio_get n s = s"
  by (cases n) simp_all

lemma after_scan_append:
  "after_scan ui tr (evs0 @ evs, r) = after_scan ui (tr @ evs0) (evs, r)"
  by (simp add: after_scan_def split: option.splits prod.splits)

lemma drive_after_scan:
  assumes "app_dashboard ui = Some (dashboard\<lparr>satellites := SatellitesDict (done @ rem)\<rparr>)"
    and "length rem \<le> n"
    and "size0 = length done + length rem"
  shows "drive cvr aio_get n
           (after_scan ui tr
              (scan l (predictions_refresh_real_seconds ui) size0 (length done) rem)) =
         \<lparr> sched_ui = (fst (snd (for_satellites cvr aio_get l rem ui)))
             \<lparr>app_dashboard := Some (dashboard\<lparr>satellites := SatellitesDict
                (done @ fst (for_satellites cvr aio_get l rem ui))\<rparr>)\<rparr>,
           sched_pc = Sleeping,
           sched_trace = tr @ snd (snd (for_satellites cvr aio_get l rem ui)) \<rparr>"
  using assms
proof (induction rem arbitrary: "done" ui tr n)
  case Nil
  then show ?case
    by (simp add: after_scan_def)
next
  case (Cons a rest)
  obtain k sat where a: "a = (k, sat)" by (cases a)
  let ?t = "predictions_refresh_real_seconds ui"
  obtain evs0 r where b: "check_satellite_begin l ?t sat = (evs0, r)"
    by (cases "check_satellite_begin l ?t sat")
  have size0: "size0 = length (done @ [(k, sat)]) + length rest"
    using Cons.prems(3) by simp
  show ?case
  proof (cases r)
    case None
    have cs: "check_satellite cvr aio_get l sat ui = (sat, ui, evs0)"
      by (simp add: check_satellite_split b None)
    have dash: "app_dashboard ui =
        Some (dashboard\<lparr>satellites := SatellitesDict ((done @ [(k, sat)]) @ rest)\<rparr>)"
      using Cons.prems(1) by (simp add: a)
    have len: "length rest \<le> n" using Cons.prems(2) by simp
    have sc: "scan l ?t size0 (length done) ((k, sat) # rest) =
        (evs0 @ fst (scan l ?t size0 (Suc (length done)) rest),
         snd (scan l ?t size0 (Suc (length done)) rest))"
      by (simp add: b None case_prod_beta)
    show ?thesis
      using Cons.IH[OF dash len size0, of "tr @ evs0"]
      by (simp add: sc after_scan_append a cs case_prod_beta del: scan.simps)
  next
    case (Some rq)
    obtain m where n: "n = Suc m" using Cons.prems(2) by (cases n) auto
    obtain sat' ui1 evs1 where res:
      "check_satellite_resume cvr sat rq (aio_get rq) ui = (sat', ui1, evs1)"
      by (cases "check_satellite_resume cvr sat rq (aio_get rq) ui") auto
    have cfg: "same_config ui ui1"
      using check_satellite_resume_same_config[of ui cvr sat rq "aio_get rq"]
      by (simp add: res)
    have cs: "check_satellite cvr aio_get l sat ui = (sat', ui1, evs0 @ evs1)"
      by (simp add: check_satellite_split b Some res)
    let ?d' = "done @ (k, sat') # rest"
    let ?ui2 = "ui1\<lparr>app_dashboard :=
                   Some (dashboard\<lparr>satellites := SatellitesDict ?d'\<rparr>)\<rparr>"
    let ?fr = "\<lparr> fr_index = length done, fr_key = k, fr_satellite = sat, fr_rest = rest,
                 fr_size = size0, fr_request = rq, fr_locals = l \<rparr>"
    have t2: "predictions_refresh_real_seconds ?ui2 = ?t"
      using cfg by (simp add: same_config_def)
    have dict1: "satellites_dict ui1 = Some (done @ (k, sat) # rest)"
      using cfg Cons.prems(1) by (simp add: same_config_def satellites_dict_def a)
    have upd: "(done @ (k, sat) # rest)[length done := (k, sat')] = ?d'"
      by simp
    have set2: "set_satellites_dict ?d' ui1 = ?ui2"
      using cfg Cons.prems(1) by (simp add: same_config_def set_satellites_dict_def)
    have st: "step cvr \<lparr> sched_ui = ui, sched_pc = Awaiting ?fr,
                         sched_trace = tr @ evs0 \<rparr> (Resolve (aio_get rq)) =
              after_scan ?ui2 (tr @ evs0 @ evs1)
                (scan l ?t size0 (Suc (length done)) rest)"
      using t2 Cons.prems(3)
      by (simp add: step_def res dict1 upd set2 Let_def del: list_update_append)
    have dash: "app_dashboard ?ui2 =
        Some (dashboard\<lparr>satellites := SatellitesDict ((done @ [(k, sat')]) @ rest)\<rparr>)"
      by simp
    have len: "length rest \<le> m" using Cons.prems(2) n by simp
    have size0': "size0 = length (done @ [(k, sat')]) + length rest"
      using Cons.prems(3) by simp
    have sc: "scan l ?t size0 (length done) ((k, sat) # rest) = (evs0, Some ?fr)"
      by (simp add: b Some)
    have ih: "drive cvr aio_get m
           (after_scan ?ui2 (tr @ evs0 @ evs1)
              (scan l ?t size0 (Suc (length done)) rest)) =
         \<lparr> sched_ui = (fst (snd (for_satellites cvr aio_get l rest ?ui2)))
             \<lparr>app_dashboard := Some (dashboard\<lparr>satellites := SatellitesDict
                ((done @ [(k, sat')]) @ fst (for_satellites cvr aio_get l rest ?ui2))\<rparr>)\<rparr>,
           sched_pc = Sleeping,
           sched_trace = tr @ evs0 @ evs1
              @ snd (snd (for_satellites cvr aio_get l rest ?ui2)) \<rparr>"
      using Cons.IH[OF dash len size0', of "tr @ evs0 @ evs1"] by (simp add: t2)
    have s0: "after_scan ui tr (scan l ?t size0 (length done) ((k, sat) # rest)) =
        \<lparr> sched_ui = ui, sched_pc = Awaiting ?fr, sched_trace = tr @ evs0 \<rparr>"
      by (simp add: sc after_scan_def del: scan.simps)
    show ?thesis
      by (simp add: a s0 n st ih for_satellites_app_dashboard cs case_prod_beta
          del: scan.simps)
  qed
qed

lemma drive_is_tick:
  assumes "app_dashboard self = Some dashboard"
    and "satellites dashboard = SatellitesDict d"
  shows "drive cvr aio_get (length d) (step cvr (start self) Wake) =
         \<lparr> sched_ui = fst (tick cvr aio_get self),
           sched_pc = (case snd (snd (tick cvr aio_get self)) of
                         None \<Rightarrow> Sleeping | Some err \<Rightarrow> Terminated err),
           sched_trace = fst (snd (tick cvr aio_get self)) \<rparr>"
proof (cases "compute_locals self")
  case (Inl err)
  then show ?thesis
    using assms by (simp add: step_def start_def tick_def)
next
  case (Inr l)
  have dash: "app_dashboard self =
      Some (dashboard\<lparr>satellites := SatellitesDict ([] @ d)\<rparr>)"
    using assms by simp
  have size0: "length d = length ([] :: (string \<times> Satellite) list) + length d"
    by simp
  show ?thesis
    using drive_after_scan[OF dash order_refl size0, of cvr aio_get "[PrintChecking]" l]
      assms Inr
    by (simp add: step_def start_def tick_dict[OF assms Inr])
qed

text \<open>The events of a pass never show two requests in flight.\<close>

lemma drive_inv: "sched_inv s \<Longrightarrow> sched_inv (drive cvr aio_get n s)"
  by (induction n arbitrary: s) (auto simp: step_inv split: pc.splits)

lemma tick_calm:
  assumes "app_dashboard self = Some dashboard"
    and "satellites dashboard = SatellitesDict d"
  shows "calm [] (fst (snd (tick cvr aio_get self)))"
proof -
  have "sched_inv (drive cvr aio_get (length d) (step cvr (start self) Wake))"
    by (intro drive_inv step_inv start_inv)
  then show ?thesis
    by (simp add: drive_is_tick[OF assms] sched_inv_def)
qed

section \<open>The claims\<close>

subsection \<open>C1: what \<^verbatim>\<open>path_covers\<close> answers\<close>

text \<open>
  Claim C1. \<^verbatim>\<open>path_covers\<close> returns \<^verbatim>\<open>True\<close> if and only if the satellite has a
  coverage window that starts at or before the start asked for and ends at or after the
  end asked for. For a satellite with a coverage window it returns the truth value of
  that comparison and raises nothing, so that a window which only overlaps the one
  asked for gives \<^verbatim>\<open>False\<close>; for a satellite without cached samples (\<^verbatim>\<open>None\<close> or an
  empty list) there is no coverage and it returns \<^verbatim>\<open>False\<close>.
\<close>

theorem path_covers_iff_coverage:
  "(path_covers E s e = Inr True) =
     (\<exists>cs ce. coverage E = Some (cs, ce) \<and> cs \<le> s \<and> ce \<ge> e)
   \<and> (coverage E = Some (cs, ce) \<longrightarrow> path_covers E s e = Inr (cs \<le> s \<and> ce \<ge> e))
   \<and> (\<not> truthy (path_positions E) \<longrightarrow>
        coverage E = None \<and> path_covers E s e = Inr False)"
  by (auto simp: path_covers_def coverage_def py_le_def py_ge_def
      split: option.splits sum.splits bool.splits)

text \<open>
  Witness for C1: a satellite with predictions from -10 to 500, asked for the window
  from 0 to 900, which its coverage only overlaps; and a satellite without predictions.
\<close>

theorem path_covers_iff_coverage_witness:
  "coverage (example_covered_satellite ''X'' (- 10) 500) = Some (- 10, 500)
   \<and> path_covers (example_covered_satellite ''X'' (- 10) 500) 0 900 = Inr False
   \<and> \<not> truthy (path_positions (example_satellite ''X''))
   \<and> path_covers (example_satellite ''X'') 0 900 = Inr False"
proof -
  have h1: "coverage (example_covered_satellite ''X'' (- 10) 500) = Some (- 10, 500)"
    by (simp add: coverage_def example_covered_satellite_def)
  have h2: "\<not> truthy (path_positions (example_satellite ''X''))"
    by (simp add: example_satellite_def)
  have "path_covers (example_covered_satellite ''X'' (- 10) 500) 0 900 = Inr False"
    using path_covers_iff_coverage[of "example_covered_satellite ''X'' (- 10) 500" 0 900
        "- 10" 500] h1
    by simp
  moreover have "path_covers (example_satellite ''X'') 0 900 = Inr False"
    using path_covers_iff_coverage[of "example_satellite ''X''" 0 900] h2
    by blast
  ultimately show ?thesis
    using h1 h2 by (intro conjI)
qed

subsection \<open>C2: the windows of a pass and the satellites it fetches\<close>




subsection \<open>C3: a fetch that fails\<close>

text \<open>
  Counterexample to claim C3 as stated, in two parts. First, a failure by exception that
  changes the satellite's own window: the satellite \<^verbatim>\<open>A\<close> has predictions from -100 to
  100; the response to its request has a start date that parses and an end date that
  does not; \<^verbatim>\<open>on_path_received\<close> has stored the new start date when the exception
  is raised, the loop prints the error, and the satellite is left with the window from
  -1800 to 100. Second, the fetches of a pass are awaited one after the other: with the
  satellites \<^verbatim>\<open>A\<close> and \<^verbatim>\<open>B\<close> both to be fetched, after the wake-up only the request for
  \<^verbatim>\<open>A\<close> has been made and is in flight, and the request for \<^verbatim>\<open>B\<close> is made when the
  one for \<^verbatim>\<open>A\<close> has come back failed.
\<close>

theorem failed_fetch_counterexample:
  "compute_locals (example_ui [(''A'', example_covered_satellite ''A'' (- 100) 100)])
      = Inr example_locals
   \<and> check_satellite example_radius
        (\<lambda>rq. Returns (path_response 200 (Some (- 1800)) None None))
        example_locals
        (example_covered_satellite ''A'' (- 100) 100)
        (example_ui [(''A'', example_covered_satellite ''A'' (- 100) 100)])
      = ((example_covered_satellite ''A'' (- 100) 100)\<lparr>path_start_date := Some (- 1800)\<rparr>,
         example_ui [(''A'', example_covered_satellite ''A'' (- 100) 100)],
         [PrintRequesting ''A'', Requested (example_request ''A''),
          Resolved (example_request ''A'')
            (Returns (path_response 200 (Some (- 1800)) None None)),
          PrintPathReceived ''A'', PrintErrorCheckingOrGetting ''A'' DecodeError])
   \<and> path_start_date (example_covered_satellite ''A'' (- 100) 100) = Some (- 100)
   \<and> requests (sched_trace (run example_radius
          (start (example_ui [(''A'', example_satellite ''A''), (''B'', example_satellite ''B'')]))
          [Wake])) = [example_request ''A'']
   \<and> in_flight (sched_trace (run example_radius
          (start (example_ui [(''A'', example_satellite ''A''), (''B'', example_satellite ''B'')]))
          [Wake])) = [example_request ''A'']
   \<and> requests (sched_trace (run example_radius
          (start (example_ui [(''A'', example_satellite ''A''), (''B'', example_satellite ''B'')]))
          [Wake, Resolve (Raises RequestError)]))
        = [example_request ''A'', example_request ''B'']"
proof -
  have a: "check_satellite example_radius
        (\<lambda>rq. Returns (path_response 200 (Some (- 1800)) None None))
        example_locals
        (example_covered_satellite ''A'' (- 100) 100)
        (example_ui [(''A'', example_covered_satellite ''A'' (- 100) 100)])
      = ((example_covered_satellite ''A'' (- 100) 100)\<lparr>path_start_date := Some (- 1800)\<rparr>,
         example_ui [(''A'', example_covered_satellite ''A'' (- 100) 100)],
         [PrintRequesting ''A'', Requested (example_request ''A''),
          Resolved (example_request ''A'')
            (Returns (path_response 200 (Some (- 1800)) None None)),
          PrintPathReceived ''A'', PrintErrorCheckingOrGetting ''A'' DecodeError])"
    by (simp add: eval_defs)
  have b: "path_start_date (example_covered_satellite ''A'' (- 100) 100) = Some (- 100)"
    by (simp add: example_covered_satellite_def)
  have c: "requests (sched_trace (run example_radius
          (start (example_ui [(''A'', example_satellite ''A''), (''B'', example_satellite ''B'')]))
          [Wake])) = [example_request ''A'']"
    by (simp add: eval_defs step_def start_def after_scan_def)
  have d: "in_flight (sched_trace (run example_radius
          (start (example_ui [(''A'', example_satellite ''A''), (''B'', example_satellite ''B'')]))
          [Wake])) = [example_request ''A'']"
    by (simp add: eval_defs step_def start_def after_scan_def in_flight_def)
  have e: "requests (sched_trace (run example_radius
          (start (example_ui [(''A'', example_satellite ''A''), (''B'', example_satellite ''B'')]))
          [Wake, Resolve (Raises RequestError)]))
        = [example_request ''A'', example_request ''B'']"
    by (simp add: eval_defs step_def start_def after_scan_def satellites_dict_def
        set_satellites_dict_def)
  show ?thesis
    by (intro conjI) (rule ex_locals, rule a, rule b, rule c, rule d, rule e)
qed

text \<open>
  Claim C3, amended. In a pass with the dates \<open>l\<close>, a fetch for the entity A that fails
  before anything is decoded (the request raises, as on a transport error; the response
  has a status other than 0 and 200; or its body is not JSON, as the empty body of a
  request that timed out) leaves A's window and samples unchanged, and has no effect on
  the others: after the pass every other satellite and the viewer are exactly what a
  pass over the dashboard without A leaves, the loop goes through the remaining
  satellites, and the pass ends without an exception, so that the next one follows.
  Fetches are awaited one at a time, in the order of the dict: at no moment of the pass
  are two requests in flight.
\<close>

theorem failed_fetch_is_isolated:
  assumes "app_dashboard self = Some dashboard"
    and "satellites dashboard = SatellitesDict (pre @ (k, A) # rest)"
    and "compute_locals self = Inr l"
    and "needs_fetch l A"
    and "failed (aio_get (request_for l (predictions_refresh_real_seconds self) A))"
  shows "fst (for_satellites cvr aio_get l (pre @ (k, A) # rest) self) =
           take (length pre) (fst (for_satellites cvr aio_get l (pre @ rest) self))
           @ (k, A)
           # drop (length pre) (fst (for_satellites cvr aio_get l (pre @ rest) self))
       \<and> fst (snd (for_satellites cvr aio_get l (pre @ (k, A) # rest) self)) =
           fst (snd (for_satellites cvr aio_get l (pre @ rest) self))
       \<and> snd (snd (tick cvr aio_get self)) = None
       \<and> app_dashboard (fst (tick cvr aio_get self)) =
           Some (dashboard\<lparr>satellites := SatellitesDict
             (fst (for_satellites cvr aio_get l (pre @ (k, A) # rest) self))\<rparr>)
       \<and> viewer (fst (tick cvr aio_get self)) =
           viewer (fst (snd (for_satellites cvr aio_get l (pre @ rest) self)))
       \<and> (\<forall>n. length (in_flight (take n (fst (snd (tick cvr aio_get self))))) \<le> 1)"
proof -
  have unchanged:
    "\<exists>evs. check_satellite cvr aio_get l A ui = (A, ui, evs)"
    if "predictions_refresh_real_seconds ui = predictions_refresh_real_seconds self" for ui
    using check_satellite_failed[OF assms(4), of aio_get ui cvr] assms(5) that by simp
  note u = for_satellites_unchanged[of self cvr aio_get l A pre k rest, OF unchanged]
  have one: "length (in_flight (take n (fst (snd (tick cvr aio_get self))))) \<le> 1" for n
    using calm_take[OF tick_calm[OF assms(1,2)], of n cvr aio_get]
    by (simp add: in_flight_def)
  have main: "fst (for_satellites cvr aio_get l (pre @ (k, A) # rest) self) =
           take (length pre) (fst (for_satellites cvr aio_get l (pre @ rest) self))
           @ (k, A)
           # drop (length pre) (fst (for_satellites cvr aio_get l (pre @ rest) self))
       \<and> fst (snd (for_satellites cvr aio_get l (pre @ (k, A) # rest) self)) =
           fst (snd (for_satellites cvr aio_get l (pre @ rest) self))
       \<and> snd (snd (tick cvr aio_get self)) = None
       \<and> app_dashboard (fst (tick cvr aio_get self)) =
           Some (dashboard\<lparr>satellites := SatellitesDict
             (fst (for_satellites cvr aio_get l (pre @ (k, A) # rest) self))\<rparr>)
       \<and> viewer (fst (tick cvr aio_get self)) =
           viewer (fst (snd (for_satellites cvr aio_get l (pre @ rest) self)))"
    using u by (simp add: tick_dict[OF assms(1,2,3)])
  show ?thesis
    using main one by blast
qed

text \<open>
  Witness for C3: the request for \<^verbatim>\<open>A\<close> raises, \<^verbatim>\<open>B\<close> comes after it in the dict and is
  answered.
\<close>

theorem failed_fetch_is_isolated_witness:
  "app_dashboard (example_ui [(''A'', example_satellite ''A''), (''B'', example_satellite ''B'')])
     = Some (example_dashboard
         [(''A'', example_satellite ''A''), (''B'', example_satellite ''B'')])
   \<and> satellites (example_dashboard
         [(''A'', example_satellite ''A''), (''B'', example_satellite ''B'')])
     = SatellitesDict ([] @ (''A'', example_satellite ''A'') # [(''B'', example_satellite ''B'')])
   \<and> compute_locals (example_ui
         [(''A'', example_satellite ''A''), (''B'', example_satellite ''B'')])
     = Inr example_locals
   \<and> needs_fetch example_locals (example_satellite ''A'')
   \<and> failed (example_aio_get (request_for example_locals
        (predictions_refresh_real_seconds (example_ui
         [(''A'', example_satellite ''A''), (''B'', example_satellite ''B'')]))
        (example_satellite ''A'')))
   \<and> snd (snd (tick example_radius example_aio_get (example_ui
         [(''A'', example_satellite ''A''), (''B'', example_satellite ''B'')]))) = None
   \<and> viewer (fst (tick example_radius example_aio_get (example_ui
         [(''A'', example_satellite ''A''), (''B'', example_satellite ''B'')]))) =
       viewer (fst (snd (for_satellites example_radius example_aio_get
         example_locals ([] @ [(''B'', example_satellite ''B'')])
         (example_ui [(''A'', example_satellite ''A''), (''B'', example_satellite ''B'')]))))"
proof -
  let ?d = "[(''A'', example_satellite ''A''), (''B'', example_satellite ''B'')]"
  have h1: "app_dashboard (example_ui ?d) = Some (example_dashboard ?d)"
    by (simp add: example_ui_fields)
  have h2: "satellites (example_dashboard ?d) =
      SatellitesDict ([] @ (''A'', example_satellite ''A'') # [(''B'', example_satellite ''B'')])"
    by (simp add: example_ui_fields)
  have h3: "compute_locals (example_ui ?d) = Inr example_locals"
    by (rule ex_locals)
  have h4: "needs_fetch example_locals (example_satellite ''A'')"
    by (simp add: needs_fetch_def example_locals_def path_covers_def example_satellite_def)
  have h5: "failed (example_aio_get (request_for example_locals
      (predictions_refresh_real_seconds (example_ui ?d)) (example_satellite ''A'')))"
    by (simp add: request_for_def example_aio_get_def example_satellite_def)
  from failed_fetch_is_isolated[where self = "example_ui ?d"
      and dashboard = "example_dashboard ?d" and pre = "[]" and k = "''A''"
      and A = "example_satellite ''A''" and rest = "[(''B'', example_satellite ''B'')]"
      and aio_get = example_aio_get and cvr = example_radius and l = example_locals,
      OF h1 h2 h3 h4 h5]
  have "snd (snd (tick example_radius example_aio_get (example_ui ?d))) = None"
    and "viewer (fst (tick example_radius example_aio_get (example_ui ?d))) =
       viewer (fst (snd (for_satellites example_radius example_aio_get
         example_locals ([] @ [(''B'', example_satellite ''B'')])
         (example_ui ?d))))"
    by blast+
  with h1 h2 h3 h4 h5 show ?thesis
    by (intro conjI)
qed

subsection \<open>C4: a fetch that succeeds\<close>

text \<open>
  Claim C4. When the response has status 200 (or 0) and its body decodes, the
  satellite's window and samples are exactly those of the response, whatever was cached
  before, and the callback is called with the satellite as it is after the three
  assignments; nothing suspends in between. With \<^verbatim>\<open>update_satellite_in_map\<close> as the
  callback, as in the refresh loop, the display update raises nothing, and the
  satellite's entity in the viewer is available over the new window and has the new
  samples as its positions.
\<close>

theorem success_replaces_then_displays:
  "on_path_received self (path_response 200 (Some s) (Some e) (Some ps)) (Some cb) w =
     (self\<lparr>path_start_date := Some s, path_end_date := Some e, path_positions := Some ps\<rparr>,
      fst (cb (self\<lparr>path_start_date := Some s, path_end_date := Some e,
                   path_positions := Some ps\<rparr>) w),
      [PrintPathReceived (name self)],
      snd (cb (self\<lparr>path_start_date := Some s, path_end_date := Some e,
                   path_positions := Some ps\<rparr>) w))
   \<and> on_path_received self (path_response 0 (Some s) (Some e) (Some ps)) (Some cb) w =
     on_path_received self (path_response 200 (Some s) (Some e) (Some ps)) (Some cb) w
   \<and> snd (update_satellite_in_map cvr
        (self\<lparr>path_start_date := Some s, path_end_date := Some e,
              path_positions := Some ps\<rparr>) ui) = None
   \<and> (\<exists>ent. entities (viewer (fst (update_satellite_in_map cvr
                 (self\<lparr>path_start_date := Some s, path_end_date := Some e,
                       path_positions := Some ps\<rparr>) ui)))
               (''SatelliteTracker.Satellite:'' @ sat_id self) = Some ent
          \<and> availability ent = [(s, e)]
          \<and> position ent = Some (map (\<lambda>p. (cesium_date p, cesium_position p)) ps))"
proof -
  let ?new = "self\<lparr>path_start_date := Some s, path_end_date := Some e,
                   path_positions := Some ps\<rparr>"
  have display: "snd (update_satellite_in_map cvr ?new ui) = None"
    "\<exists>ent. entities (viewer (fst (update_satellite_in_map cvr ?new ui)))
              (''SatelliteTracker.Satellite:'' @ sat_id ?new) = Some ent
          \<and> entity_name ent = Some (name ?new)
          \<and> availability ent = [(s, e)]
          \<and> position ent = Some (map (\<lambda>p. (cesium_date p, cesium_position p)) ps)"
    by (rule update_satellite_in_map_success; simp)+
  from display(2) have shown:
    "\<exists>ent. entities (viewer (fst (update_satellite_in_map cvr ?new ui)))
              (''SatelliteTracker.Satellite:'' @ sat_id self) = Some ent
          \<and> availability ent = [(s, e)]
          \<and> position ent = Some (map (\<lambda>p. (cesium_date p, cesium_position p)) ps)"
    by auto
  show ?thesis
    using display(1) shown by (simp add: on_path_received_success)
qed

subsection \<open>C5: one fetch at a time\<close>

text \<open>
  Claim C5. However the refresh coroutine is resumed, by the end of its sleep or by the
  return of the request it awaits, at no moment of its run are two requests in flight,
  for the same satellite or for two. A pass starts only from the sleep at the head of
  the loop, which is reached when every request of the pass before has come back: a
  wake-up while a request is in flight finds no coroutine sleeping, and nothing is
  requested.
\<close>

theorem one_fetch_in_flight:
  "(\<forall>n. length (in_flight (take n (sched_trace (run cvr (start self) inps)))) \<le> 1)
   \<and> (in_flight (sched_trace (run cvr (start self) inps)) \<noteq> [] \<longrightarrow>
        step cvr (run cvr (start self) inps) Wake = run cvr (start self) inps)"
proof -
  have inv: "sched_inv (run cvr (start self) inps)"
    by (rule run_inv) (rule start_inv)
  have "length (in_flight (take n (sched_trace (run cvr (start self) inps)))) \<le> 1" for n
    using inv calm_take[of "[]" "sched_trace (run cvr (start self) inps)" n]
    by (simp add: sched_inv_def in_flight_def)
  moreover have "step cvr (run cvr (start self) inps) Wake = run cvr (start self) inps"
    if "in_flight (sched_trace (run cvr (start self) inps)) \<noteq> []"
    using inv that
    by (cases "sched_pc (run cvr (start self) inps)") (simp_all add: sched_inv_def step_def)
  ultimately show ?thesis by blast
qed

text \<open>
  Witness for C5: two satellites to fetch. After the wake-up the request for the first
  is in flight, and a second wake-up changes nothing.
\<close>

theorem one_fetch_in_flight_witness:
  "in_flight (sched_trace (run example_radius
       (start (example_ui [(''A'', example_satellite ''A''), (''B'', example_satellite ''B'')]))
       [Wake])) \<noteq> []
   \<and> step example_radius (run example_radius
       (start (example_ui [(''A'', example_satellite ''A''), (''B'', example_satellite ''B'')]))
       [Wake]) Wake
     = run example_radius
       (start (example_ui [(''A'', example_satellite ''A''), (''B'', example_satellite ''B'')]))
       [Wake]"
proof -
  have h: "in_flight (sched_trace (run example_radius
       (start (example_ui [(''A'', example_satellite ''A''), (''B'', example_satellite ''B'')]))
       [Wake])) \<noteq> []"
    by (simp add: eval_defs step_def start_def after_scan_def in_flight_def)
  from one_fetch_in_flight[of example_radius
      "example_ui [(''A'', example_satellite ''A''), (''B'', example_satellite ''B'')]"
      "[Wake]"] h
  have "step example_radius (run example_radius
       (start (example_ui [(''A'', example_satellite ''A''), (''B'', example_satellite ''B'')]))
       [Wake]) Wake
     = run example_radius
       (start (example_ui [(''A'', example_satellite ''A''), (''B'', example_satellite ''B'')]))
       [Wake]"
    by blast
  with h show ?thesis by (intro conjI)
qed

subsection \<open>C6: a satellite removed while its fetch is in flight\<close>

text \<open>
  Counterexample to claim C6 as stated, in two parts. In both the pass has made the
  request for the satellite \<^verbatim>\<open>X\<close>, and the satellite is removed while the request is
  awaited.
  \<^item> The dashboard is replaced by one without satellites, which also clears the map;
    then the response arrives. The completion gives the satellite object the new
    samples, and puts an entity for it back on the map, available over the new window.
  \<^item> The key of the satellite is deleted from the dict of the dashboard; then the
    response arrives. The completion puts the entity of the satellite on the map as
    before; the \<^verbatim>\<open>for\<close> statement then finds that the dict has changed size, and the
    coroutine ends with \<^verbatim>\<open>RuntimeError\<close>.
\<close>

theorem stale_completion_counterexample:
  "snd (check_satellite_begin example_locals 5
          (example_satellite ''X'')) = Some (example_request ''X'')
   \<and> app_dashboard (set_current_dashboard (example_dashboard [])
          (example_ui [(''X'', example_satellite ''X'')])) = Some (example_dashboard [])
   \<and> satellites (example_dashboard []) = SatellitesDict []
   \<and> path_positions (example_satellite ''X'') = None
   \<and> entities (viewer (set_current_dashboard (example_dashboard [])
          (example_ui [(''X'', example_satellite ''X'')]))) ''SatelliteTracker.Satellite:X'' = None
   \<and> path_positions (fst (check_satellite_resume example_radius (example_satellite ''X'')
          (example_request ''X'')
          (Returns (path_response 200 (Some (- 1800)) (Some 1800) (Some [example_position])))
          (set_current_dashboard (example_dashboard [])
             (example_ui [(''X'', example_satellite ''X'')])))) = Some [example_position]
   \<and> map_option availability (entities (viewer (fst (snd (check_satellite_resume example_radius
          (example_satellite ''X'') (example_request ''X'')
          (Returns (path_response 200 (Some (- 1800)) (Some 1800) (Some [example_position])))
          (set_current_dashboard (example_dashboard [])
             (example_ui [(''X'', example_satellite ''X'')])))))) ''SatelliteTracker.Satellite:X'')
       = Some [(- 1800, 1800)]
   \<and> in_flight (sched_trace (run example_radius
          (start (example_ui [(''X'', example_satellite ''X'')]))
          [Wake, Delete ''X''])) = [example_request ''X'']
   \<and> satellites_dict (sched_ui (run example_radius
          (start (example_ui [(''X'', example_satellite ''X'')]))
          [Wake, Delete ''X''])) = Some []
   \<and> map_option availability (entities (viewer (sched_ui (run example_radius
          (start (example_ui [(''X'', example_satellite ''X'')]))
          [Wake, Delete ''X'',
           Resolve (Returns (path_response 200 (Some (- 1800)) (Some 1800)
                               (Some [example_position])))])))
        ''SatelliteTracker.Satellite:X'')
       = Some [(- 1800, 1800)]
   \<and> sched_pc (run example_radius
          (start (example_ui [(''X'', example_satellite ''X'')]))
          [Wake, Delete ''X'',
           Resolve (Returns (path_response 200 (Some (- 1800)) (Some 1800)
                               (Some [example_position])))])
       = Terminated RuntimeError"
proof -
  let ?ui = "set_current_dashboard (example_dashboard [])
               (example_ui [(''X'', example_satellite ''X'')])"
  let ?old = "example_ui [(''X'', example_satellite ''X'')]"
  let ?gone = "delete_satellite ''X'' ?old"
  let ?ok = "Returns (path_response 200 (Some (- 1800)) (Some 1800) (Some [example_position]))"
  let ?new = "(example_satellite ''X'')\<lparr>path_start_date := Some (- 1800),
                 path_end_date := Some 1800, path_positions := Some [example_position]\<rparr>"
  let ?fr = "\<lparr> fr_index = 0, fr_key = ''X'', fr_satellite = example_satellite ''X'',
               fr_rest = [], fr_size = 1, fr_request = example_request ''X'',
               fr_locals = example_locals \<rparr>"
  have sid: "sat_id (example_satellite ''X'') = ''X''"
    by (simp add: example_satellite_def)
  have shown: "map_option availability
      (entities (viewer (fst (update_satellite_in_map example_radius ?new ui)))
         ''SatelliteTracker.Satellite:X'') = Some [(- 1800, 1800)]" for ui
  proof -
    obtain ent where
      "entities (viewer (fst (update_satellite_in_map example_radius ?new ui)))
         (''SatelliteTracker.Satellite:'' @ sat_id ?new) = Some ent"
      "availability ent = [(- 1800, 1800)]"
      using update_satellite_in_map_success(2)[of ?new "- 1800" 1800 "[example_position]"
          example_radius ui]
      by auto
    then show ?thesis by (simp add: sid)
  qed
  have issued: "snd (check_satellite_begin example_locals 5
      (example_satellite ''X'')) = Some (example_request ''X'')"
    by (simp add: eval_defs)
  have removed: "app_dashboard ?ui = Some (example_dashboard [])"
    "entities (viewer ?ui) ''SatelliteTracker.Satellite:X'' = None"
    by (simp_all add: set_current_dashboard_def on_dashboard_changed_def clear_map_data_def)
  have first: "path_positions (example_satellite ''X'') = None"
    "path_positions (fst (check_satellite_resume example_radius (example_satellite ''X'')
          (example_request ''X'') ?ok ?ui)) = Some [example_position]"
    "map_option availability (entities (viewer (fst (snd (check_satellite_resume
          example_radius (example_satellite ''X'') (example_request ''X'') ?ok ?ui))))
          ''SatelliteTracker.Satellite:X'') = Some [(- 1800, 1800)]"
    using shown[of ?ui]
    by (simp_all add: check_satellite_resume_success example_satellite_def)
  have woken: "run example_radius (start ?old) [Wake] =
      \<lparr> sched_ui = ?old, sched_pc = Awaiting ?fr,
        sched_trace = [PrintChecking, PrintRequesting ''X'', Requested (example_request ''X'')] \<rparr>"
    by (simp add: eval_defs step_def start_def after_scan_def)
  have deleted: "run example_radius (start ?old) [Wake, Delete ''X''] =
      \<lparr> sched_ui = ?gone, sched_pc = Awaiting ?fr,
        sched_trace = [PrintChecking, PrintRequesting ''X'', Requested (example_request ''X'')] \<rparr>"
    using woken by (simp add: step_Delete)
  have gone: "satellites_dict ?gone = Some []"
    by (simp add: delete_satellite_def satellites_dict_def set_satellites_dict_def
        example_ui_fields)
  have flight: "in_flight (sched_trace (run example_radius (start ?old)
      [Wake, Delete ''X''])) = [example_request ''X'']"
    by (simp only: deleted) (simp add: in_flight_def)
  have cfg: "same_config ?gone (fst (update_satellite_in_map example_radius ?new ?gone))"
    by (rule update_satellite_in_map_same_config)
  have gone': "satellites_dict (fst (update_satellite_in_map example_radius ?new ?gone))
      = Some []"
    using cfg gone by (simp add: same_config_def satellites_dict_def)
  have resolved: "run example_radius (start ?old) [Wake, Delete ''X'', Resolve ?ok] =
      \<lparr> sched_ui = set_satellites_dict (store ''X'' ?new [])
          (fst (update_satellite_in_map example_radius ?new ?gone)),
        sched_pc = Terminated RuntimeError,
        sched_trace = [PrintChecking, PrintRequesting ''X'', Requested (example_request ''X''),
          Resolved (example_request ''X'') ?ok, PrintPathReceived ''X''] \<rparr>"
  proof -
    have "run example_radius (start ?old) [Wake, Delete ''X'', Resolve ?ok] =
        step example_radius (run example_radius (start ?old) [Wake, Delete ''X'']) (Resolve ?ok)"
      by simp
    also have "\<dots> = \<lparr> sched_ui = set_satellites_dict (store ''X'' ?new [])
          (fst (update_satellite_in_map example_radius ?new ?gone)),
        sched_pc = Terminated RuntimeError,
        sched_trace = [PrintChecking, PrintRequesting ''X'', Requested (example_request ''X''),
          Resolved (example_request ''X'') ?ok, PrintPathReceived ''X''] \<rparr>"
      unfolding deleted
      by (simp add: step_def check_satellite_resume_success gone')
        (simp add: example_satellite_def)
    finally show ?thesis .
  qed
  have last: "map_option availability (entities (viewer (sched_ui (run example_radius
          (start ?old) [Wake, Delete ''X'', Resolve ?ok]))) ''SatelliteTracker.Satellite:X'')
       = Some [(- 1800, 1800)]"
    "sched_pc (run example_radius (start ?old) [Wake, Delete ''X'', Resolve ?ok])
       = Terminated RuntimeError"
    using shown[of ?gone]
    by (simp_all only: resolved)
      (simp_all add: set_satellites_dict_def split: option.splits)
  have dict: "satellites_dict (sched_ui (run example_radius (start ?old)
      [Wake, Delete ''X''])) = Some []"
    by (simp only: deleted) (simp add: gone)
  have sats: "satellites (example_dashboard []) = SatellitesDict []"
    by (simp add: example_ui_fields)
  show ?thesis
    by (intro conjI)
      (rule issued, rule removed(1), rule sats, rule first(1), rule removed(2),
       rule first(2), rule first(3), rule flight, rule dict, rule last(1), rule last(2))
qed

text \<open>
  Claim C6, amended. The completion of a fetch does not look at the registry. Whatever
  the dashboard has become while the request was in flight (\<open>registry\<close>: none, or one
  without the satellite), a response that decodes replaces the window and the samples
  of the satellite object, and the display update puts the satellite's entity on the
  map, creating it if it is not there, available over the new window; the completion
  leaves the dashboard as it found it and raises no exception itself: the events are
  the return of the request and the print of the reception, with no error print. The
  coroutine resumed with such a response leaves the viewer as the display update has
  made it, whatever the dashboard holds.
\<close>

theorem stale_completion_is_applied:
  "check_satellite_resume cvr satellite request
       (Returns (path_response 200 (Some s) (Some e) (Some ps)))
       (self\<lparr>app_dashboard := registry\<rparr>) =
     (satellite\<lparr>path_start_date := Some s, path_end_date := Some e,
                 path_positions := Some ps\<rparr>,
      (fst (update_satellite_in_map cvr
              (satellite\<lparr>path_start_date := Some s, path_end_date := Some e,
                          path_positions := Some ps\<rparr>) self))
        \<lparr>app_dashboard := registry\<rparr>,
      [Resolved request (Returns (path_response 200 (Some s) (Some e) (Some ps))),
       PrintPathReceived (name satellite)])
   \<and> (\<exists>ent. entities (viewer (fst (update_satellite_in_map cvr
                 (satellite\<lparr>path_start_date := Some s, path_end_date := Some e,
                             path_positions := Some ps\<rparr>) self)))
               (''SatelliteTracker.Satellite:'' @ sat_id satellite) = Some ent
          \<and> availability ent = [(s, e)])
   \<and> viewer (sched_ui (step cvr
        \<lparr> sched_ui = self\<lparr>app_dashboard := registry\<rparr>,
          sched_pc = Awaiting (fr\<lparr>fr_satellite := satellite, fr_request := request\<rparr>),
          sched_trace = tr \<rparr>
        (Resolve (Returns (path_response 200 (Some s) (Some e) (Some ps)))))) =
       viewer (fst (update_satellite_in_map cvr
                 (satellite\<lparr>path_start_date := Some s, path_end_date := Some e,
                             path_positions := Some ps\<rparr>) self))"
proof -
  let ?new = "satellite\<lparr>path_start_date := Some s, path_end_date := Some e,
                        path_positions := Some ps\<rparr>"
  let ?ok = "Returns (path_response 200 (Some s) (Some e) (Some ps))"
  have "\<exists>ent. entities (viewer (fst (update_satellite_in_map cvr ?new self)))
              (''SatelliteTracker.Satellite:'' @ sat_id ?new) = Some ent
          \<and> entity_name ent = Some (name ?new)
          \<and> availability ent = [(s, e)]
          \<and> position ent = Some (map (\<lambda>p. (cesium_date p, cesium_position p)) ps)"
    by (rule update_satellite_in_map_success; simp)
  then have shown:
    "\<exists>ent. entities (viewer (fst (update_satellite_in_map cvr ?new self)))
              (''SatelliteTracker.Satellite:'' @ sat_id satellite) = Some ent
          \<and> availability ent = [(s, e)]"
    by auto
  have handler: "check_satellite_resume cvr satellite request ?ok
       (self\<lparr>app_dashboard := registry\<rparr>) =
     (?new, (fst (update_satellite_in_map cvr ?new self))\<lparr>app_dashboard := registry\<rparr>,
      [Resolved request ?ok, PrintPathReceived (name satellite)])"
    by (simp add: check_satellite_resume_success update_satellite_in_map_app_dashboard)
  have machine: "viewer (sched_ui (step cvr
        \<lparr> sched_ui = self\<lparr>app_dashboard := registry\<rparr>,
          sched_pc = Awaiting (fr\<lparr>fr_satellite := satellite, fr_request := request\<rparr>),
          sched_trace = tr \<rparr> (Resolve ?ok))) =
       viewer (fst (update_satellite_in_map cvr ?new self))"
    by (simp add: step_def handler after_scan_def set_satellites_dict_def Let_def
        split: option.splits prod.splits)
  show ?thesis
    using handler shown machine by (intro conjI)
qed

subsection \<open>C7: a satellite without a TLE\<close>

text \<open>
  Claim C7. For a satellite without a TLE (\<^verbatim>\<open>None\<close> or the empty string), \<^verbatim>\<open>get_path\<close>
  returns at once, without a request and without an exception, leaving the satellite as
  it is (it prints that it cannot request the path). In a pass, wherever the satellite
  stands in the dict, it is left unchanged, the other satellites and the viewer end as in
  a pass without it, and the requests of the pass are those of a pass without it: none
  is made for it.
\<close>

theorem no_tle_is_skipped:
  assumes "\<not> truthy (tle A)"
  shows "get_path aio_get A s e t cb w = (A, w, [PrintNoTLE (name A)], None)
       \<and> fst (for_satellites cvr aio_get l (pre @ (k, A) # rest) self) =
           take (length pre) (fst (for_satellites cvr aio_get l (pre @ rest) self))
           @ (k, A) # drop (length pre) (fst (for_satellites cvr aio_get l (pre @ rest) self))
       \<and> fst (snd (for_satellites cvr aio_get l (pre @ (k, A) # rest) self)) =
           fst (snd (for_satellites cvr aio_get l (pre @ rest) self))
       \<and> requests (snd (snd (for_satellites cvr aio_get l (pre @ (k, A) # rest) self))) =
           requests (snd (snd (for_satellites cvr aio_get l (pre @ rest) self)))"
proof -
  have unchanged: "\<exists>evs. check_satellite cvr aio_get l A ui = (A, ui, evs)" for ui
    using check_satellite_no_tle[OF assms, of cvr aio_get l ui] by blast
  note u = for_satellites_unchanged[of self cvr aio_get l A pre k rest, OF unchanged]
  have g: "get_path aio_get A s e t cb w = (A, w, [PrintNoTLE (name A)], None)"
    using assms by (simp add: get_path_def get_path_begin_def)
  have r: "requests (snd (snd (for_satellites cvr aio_get l (pre @ (k, A) # rest) self))) =
           requests (snd (snd (for_satellites cvr aio_get l (pre @ rest) self)))"
    using assms by (simp add: for_satellites_requests needs_fetch_def)
  show ?thesis
    using u g r by simp
qed

text \<open>
  Witness for C7: a satellite whose TLE is \<^verbatim>\<open>None\<close>, after a satellite that is fetched.
\<close>

theorem no_tle_is_skipped_witness:
  "\<not> truthy (tle ((example_satellite ''C'')\<lparr>tle := None\<rparr>))
   \<and> get_path example_aio_get ((example_satellite ''C'')\<lparr>tle := None\<rparr>) (- 1800) 1800 5
       None () = ((example_satellite ''C'')\<lparr>tle := None\<rparr>, (), [PrintNoTLE ''C''], None)
   \<and> requests (snd (snd (for_satellites example_radius example_aio_get
        example_locals
        ([(''A'', example_satellite ''A'')] @ (''C'', (example_satellite ''C'')\<lparr>tle := None\<rparr>) # [])
        (example_ui [])))) =
      requests (snd (snd (for_satellites example_radius example_aio_get
        example_locals
        ([(''A'', example_satellite ''A'')] @ []) (example_ui []))))"
proof -
  have h: "\<not> truthy (tle ((example_satellite ''C'')\<lparr>tle := None\<rparr>))"
    by simp
  have n: "name ((example_satellite ''C'')\<lparr>tle := None\<rparr>) = ''C''"
    by (simp add: example_satellite_def)
  from no_tle_is_skipped[OF h, where aio_get = example_aio_get and s = "- 1800"
      and e = 1800 and t = 5 and cb = None and w = "()" and cvr = example_radius
      and l = example_locals and pre = "[(''A'', example_satellite ''A'')]"
      and k = "''C''" and rest = "[]" and self = "example_ui []"]
  have "get_path example_aio_get ((example_satellite ''C'')\<lparr>tle := None\<rparr>) (- 1800) 1800 5
       None () = ((example_satellite ''C'')\<lparr>tle := None\<rparr>, (), [PrintNoTLE ''C''], None)"
    and "requests (snd (snd (for_satellites example_radius example_aio_get
        example_locals
        ([(''A'', example_satellite ''A'')] @ (''C'', (example_satellite ''C'')\<lparr>tle := None\<rparr>) # [])
        (example_ui [])))) =
      requests (snd (snd (for_satellites example_radius example_aio_get
        example_locals
        ([(''A'', example_satellite ''A'')] @ []) (example_ui []))))"
    unfolding n by blast+
  with h show ?thesis by (intro conjI)
qed

subsection \<open>C8: real seconds to map seconds\<close>

text \<open>
  Counterexample to claim C8 as stated. With a clock step of 2 and a multiplier of 3,
  one real second is 6 map seconds, not 3; and with a clock that does not animate, a
  clock step of 1 and a multiplier of 1, 900 real seconds are 900 map seconds, not 0.
\<close>

theorem real_to_map_seconds_counterexample:
  "real_to_map_seconds
     ((example_ui [])\<lparr>viewer := (viewer (example_ui []))\<lparr>clock :=
        \<lparr> currentTime = 0, clockStep = 2, multiplier = 3, shouldAnimate = True \<rparr>\<rparr>\<rparr>) 1 = 6
   \<and> (6::rat) \<noteq> 1 * 3
   \<and> real_to_map_seconds
     ((example_ui [])\<lparr>viewer := (viewer (example_ui []))\<lparr>clock :=
        \<lparr> currentTime = 0, clockStep = 1, multiplier = 1, shouldAnimate = False \<rparr>\<rparr>\<rparr>) 900
      = 900
   \<and> (900::rat) \<noteq> 0"
  by (simp add: real_to_map_seconds_def)

text \<open>
  Claim C8, amended. For every real duration and every clock, the conversion gives the
  duration times the clock's multiplier times the clock's step. Whether the clock
  animates plays no part: the result is zero exactly when the step, the multiplier or
  the duration is zero, and a clock that is paused with a step and a multiplier other
  than zero still gives map seconds.
\<close>

theorem real_to_map_seconds_formula:
  "real_to_map_seconds self real_seconds =
     real_seconds * multiplier (clock (viewer self)) * clockStep (clock (viewer self))
   \<and> real_to_map_seconds
       (self\<lparr>viewer := (viewer self)\<lparr>clock := (clock (viewer self))\<lparr>shouldAnimate := b\<rparr>\<rparr>\<rparr>)
       real_seconds = real_to_map_seconds self real_seconds
   \<and> (real_to_map_seconds self real_seconds = 0) =
       (clockStep (clock (viewer self)) = 0 \<or> multiplier (clock (viewer self)) = 0
        \<or> real_seconds = 0)"
  by (auto simp: real_to_map_seconds_def Let_def)

subsection \<open>C9: receiving the same response twice\<close>

text \<open>
  Claim C9. Receiving a response a second time, whatever the callback and its state,
  leaves the satellite (its window and its samples with it) as the first reception
  left it. This holds for every response, and so for every successful one.
\<close>

theorem on_path_received_idempotent:
  "fst (on_path_received (fst (on_path_received self r cb w)) r cb' w')
     = fst (on_path_received self r cb w)
   \<and> fst (on_path_received
            (fst (on_path_received self
                    (path_response 200 (Some s) (Some e) (Some ps)) cb w))
            (path_response 200 (Some s) (Some e) (Some ps)) cb' w')
     = self\<lparr>path_start_date := Some s, path_end_date := Some e, path_positions := Some ps\<rparr>"
  by (auto simp: on_path_received_def path_response_def Let_def
      split: option.splits prod.splits)

subsection \<open>C10: the constructor's assertion\<close>

text \<open>
  Claim C10. \<^verbatim>\<open>Satellite.__init__\<close> never fails its assertion: every call returns a
  satellite, with the id given or, when none is given, the fresh UUID string. In
  particular a call with \<^verbatim>\<open>from_db=True\<close> and \<^verbatim>\<open>id_=None\<close> returns a satellite marked as
  coming from the database whose id is the fresh UUID string.
\<close>

theorem Satellite_init_never_asserts:
  "(\<exists>sat. Satellite_init u i f n d no t td st = Inr sat \<and> from_db sat = f
        \<and> sat_id sat = (case i of None \<Rightarrow> u | Some x \<Rightarrow> x))
   \<and> (\<exists>sat. Satellite_init u None True n d no t td st = Inr sat
        \<and> sat_id sat = u \<and> from_db sat = True)"
  by (simp add: Satellite_init_def builtin_id_def)

end
